theory Spec2Isabelle
  imports Complex_Main
begin

section \<open>Values: exact reals in place of numpy floats\<close>

text \<open>
  The notebook computes with float64 arrays. The model computes with exact reals, so every
  statement below is a statement about the filter in exact arithmetic. Two things numpy does
  that the reals cannot follow are made results of their own: a division by a zero yaw rate
  (numpy warns and continues with inf or nan) is \<open>NonFinite\<close>, and \<open>np.linalg.inv\<close> meeting a
  zero pivot (numpy raises \<open>LinAlgError\<close>) is \<open>LinAlgError\<close>. Indexing an empty array
  (Python raises \<open>IndexError\<close>) is \<open>IndexError\<close>.
\<close>

type_synonym vec = "real list"
type_synonym matrix = "real list list"

datatype error = NonFinite | LinAlgError | IndexError

subsection \<open>Matrices as lists of rows\<close>

definition mat :: "nat \<Rightarrow> nat \<Rightarrow> (nat \<Rightarrow> nat \<Rightarrow> real) \<Rightarrow> matrix" where
  "mat r c f = map (\<lambda>i. map (\<lambda>j. f i j) [0..<c]) [0..<r]"

definition nrows :: "matrix \<Rightarrow> nat" where
  "nrows A = length A"

definition ncols :: "matrix \<Rightarrow> nat" where
  "ncols A = (case A of [] \<Rightarrow> 0 | row # _ \<Rightarrow> length row)"

definition is_mat :: "nat \<Rightarrow> nat \<Rightarrow> matrix \<Rightarrow> bool" where
  "is_mat r c A = (length A = r \<and> list_all (\<lambda>row. length row = c) A)"

text \<open>\<open>A * B\<close> on \<open>np.matrix\<close> operands is the matrix product.\<close>

definition mat_mul :: "matrix \<Rightarrow> matrix \<Rightarrow> matrix" where
  "mat_mul A B =
     mat (nrows A) (ncols B) (\<lambda>i j. sum_list (map (\<lambda>k. A ! i ! k * B ! k ! j) [0..<nrows B]))"

definition mat_vec :: "matrix \<Rightarrow> vec \<Rightarrow> vec" where
  "mat_vec A v = map (\<lambda>i. sum_list (map (\<lambda>k. A ! i ! k * v ! k) [0..<length v])) [0..<nrows A]"

definition mat_add :: "matrix \<Rightarrow> matrix \<Rightarrow> matrix" where
  "mat_add A B = mat (nrows A) (ncols A) (\<lambda>i j. A ! i ! j + B ! i ! j)"

definition mat_sub :: "matrix \<Rightarrow> matrix \<Rightarrow> matrix" where
  "mat_sub A B = mat (nrows A) (ncols A) (\<lambda>i j. A ! i ! j - B ! i ! j)"

text \<open>\<open>A.T\<close>\<close>

definition transpose_m :: "matrix \<Rightarrow> matrix" where
  "transpose_m A = mat (ncols A) (nrows A) (\<lambda>i j. A ! j ! i)"

text \<open>\<open>np.eye(n)\<close>\<close>

definition eye :: "nat \<Rightarrow> matrix" where
  "eye n = mat n n (\<lambda>i j. if i = j then 1 else 0)"

definition vec_add :: "vec \<Rightarrow> vec \<Rightarrow> vec" where
  "vec_add u v = map (\<lambda>i. u ! i + v ! i) [0..<length u]"

definition vec_sub :: "vec \<Rightarrow> vec \<Rightarrow> vec" where
  "vec_sub u v = map (\<lambda>i. u ! i - v ! i) [0..<length u]"

text \<open>The determinant of a 2 x 2 matrix, in which the statements about the inversion are put.\<close>

definition det2 :: "matrix \<Rightarrow> real" where
  "det2 S = S ! 0 ! 0 * S ! 1 ! 1 - S ! 0 ! 1 * S ! 1 ! 0"

text \<open>
  \<open>np.linalg.inv\<close> of the 2 x 2 innovation covariance. numpy solves \<open>S X = I\<close> with LAPACK's
  \<open>gesv\<close>: an LU factorisation with partial pivoting (the rows are swapped when the entry
  below the diagonal is the larger one in absolute value), then a forward and a back
  substitution for each column of the identity. It raises \<open>LinAlgError\<close> exactly when a pivot
  of the factorisation is zero, and this is the only test it makes. In floating point the
  second pivot \<open>u11\<close> carries the rounding of the elimination, so a singular matrix with
  non-zero off-diagonal entries may pass and a nearly singular one may raise; for a diagonal
  matrix the pivots are the diagonal entries themselves and nothing is rounded.
\<close>

definition lu_solve :: "real \<Rightarrow> real \<Rightarrow> real \<Rightarrow> real \<Rightarrow> real \<times> real \<Rightarrow> real \<times> real" where
  "lu_solve l u00 u01 u11 b =
     (let y0 = fst b;
          y1 = snd b - l * y0;
          x1 = y1 / u11;
          x0 = (y0 - u01 * x1) / u00
      in (x0, x1))"

definition linalg_inv :: "matrix \<Rightarrow> error + matrix" where
  "linalg_inv S =
     (let swap = \<bar>S ! 0 ! 0\<bar> < \<bar>S ! 1 ! 0\<bar>;
          top = (if swap then S ! 1 else S ! 0);
          bot = (if swap then S ! 0 else S ! 1);
          u00 = top ! 0; u01 = top ! 1
      in if u00 = 0 then Inl LinAlgError
         else
           (let l = bot ! 0 / u00;
                u11 = bot ! 1 - l * u01
            in if u11 = 0 then Inl LinAlgError
               else
                 (let c0 = lu_solve l u00 u01 u11 (if swap then (0, 1) else (1, 0));
                      c1 = lu_solve l u00 u01 u11 (if swap then (1, 0) else (0, 1))
                  in Inr [[fst c0, fst c1],
                          [snd c0, snd c1]])))"

text \<open>
  Python's \<open>a % b\<close> on floats takes the sign of the divisor: \<open>a - b * floor (a / b)\<close>.
\<close>

definition py_mod :: "real \<Rightarrow> real \<Rightarrow> real" where
  "py_mod a b = a - b * of_int \<lfloor>a / b\<rfloor>"

text \<open>The heading normalisation written inline in the turning branch.\<close>

definition wrap :: "real \<Rightarrow> real" where
  "wrap a = py_mod (a + pi) (2 * pi) - pi"

section \<open>The filter loop\<close>

subsection \<open>Time update (prediction)\<close>

text \<open>
  ``Project the state ahead'': the branch is chosen by the logged yaw-rate sample
  \<open>yawrate[filterstep]\<close>, and the state vector is overwritten in place, component by
  component. The turning branch divides by \<open>x[4]\<close>.
\<close>

definition project_state :: "real \<Rightarrow> real \<Rightarrow> vec \<Rightarrow> error + vec" where
  "project_state yawrate dt x =
     (if \<bar>yawrate\<bar> < 0.0001 then
        (let x = x[0 := x ! 0 + x ! 3 * dt * cos (x ! 2)];
             x = x[1 := x ! 1 + x ! 3 * dt * sin (x ! 2)];
             x = x[2 := x ! 2];
             x = x[3 := x ! 3];
             x = x[4 := 0.0000001]
         in Inr x)
      else if x ! 4 = 0 then Inl NonFinite
      else
        (let x = x[0 := x ! 0 + (x ! 3 / x ! 4) * (sin (x ! 4 * dt + x ! 2) - sin (x ! 2))];
             x = x[1 := x ! 1 + (x ! 3 / x ! 4) * (- cos (x ! 4 * dt + x ! 2) + cos (x ! 2))];
             x = x[2 := py_mod (x ! 2 + x ! 4 * dt + pi) (2 * pi) - pi];
             x = x[3 := x ! 3];
             x = x[4 := x ! 4]
         in Inr x))"

text \<open>
  ``Calculate the Jacobian of the Dynamic Matrix A'': computed from the state vector as the
  projection left it. Every partial divides by \<open>x[4]\<close>.
\<close>

definition jacobian_A :: "real \<Rightarrow> vec \<Rightarrow> error + matrix" where
  "jacobian_A dt x =
     (if x ! 4 = 0 then Inl NonFinite
      else
        (let a13 = (x ! 3 / x ! 4) * (cos (x ! 4 * dt + x ! 2) - cos (x ! 2));
             a14 = (1 / x ! 4) * (sin (x ! 4 * dt + x ! 2) - sin (x ! 2));
             a15 = (dt * x ! 3 / x ! 4) * cos (x ! 4 * dt + x ! 2)
                     - (x ! 3 / (x ! 4)\<^sup>2) * (sin (x ! 4 * dt + x ! 2) - sin (x ! 2));
             a23 = (x ! 3 / x ! 4) * (sin (x ! 4 * dt + x ! 2) - sin (x ! 2));
             a24 = (1 / x ! 4) * (- cos (x ! 4 * dt + x ! 2) + cos (x ! 2));
             a25 = (dt * x ! 3 / x ! 4) * sin (x ! 4 * dt + x ! 2)
                     - (x ! 3 / (x ! 4)\<^sup>2) * (- cos (x ! 4 * dt + x ! 2) + cos (x ! 2))
         in Inr [[1, 0, a13, a14, a15],
                 [0, 1, a23, a24, a25],
                 [0, 0, 1, 0, dt],
                 [0, 0, 0, 1, 0],
                 [0, 0, 0, 0, 1]]))"

text \<open>``Project the error covariance ahead'': \<open>P = JA*P*JA.T + Q\<close>\<close>

definition project_covariance :: "matrix \<Rightarrow> matrix \<Rightarrow> matrix \<Rightarrow> matrix" where
  "project_covariance JA P Q = mat_add (mat_mul (mat_mul JA P) (transpose_m JA)) Q"

text \<open>The three statements of the time update, in the order of the loop body.\<close>

definition time_update ::
  "real \<Rightarrow> matrix \<Rightarrow> real \<Rightarrow> vec \<times> matrix \<Rightarrow> error + (vec \<times> matrix \<times> matrix)" where
  "time_update dt Q yawrate s =
     (case project_state yawrate dt (fst s) of
        Inl e \<Rightarrow> Inl e
      | Inr x \<Rightarrow>
          (case jacobian_A dt x of
             Inl e \<Rightarrow> Inl e
           | Inr JA \<Rightarrow> Inr (x, JA, project_covariance JA (snd s) Q)))"

subsection \<open>Measurement update (correction)\<close>

text \<open>The variables of the loop body that are live after one pass.\<close>

record step_vars =
  var_x :: vec
  var_P :: matrix
  var_JH :: matrix
  var_S :: matrix
  var_K :: matrix
  var_Z :: vec
  var_y :: vec

text \<open>The measurement Jacobian, chosen by the flag \<open>GPS[filterstep]\<close>.\<close>

definition measurement_jacobian :: "bool \<Rightarrow> matrix" where
  "measurement_jacobian GPS =
     (if GPS then [[1, 0, 0, 0, 0],
                   [0, 1, 0, 0, 0]]
      else [[0, 0, 0, 0, 0],
            [0, 0, 0, 0, 0]])"

text \<open>\<open>S = JH*P*JH.T + R\<close>\<close>

definition innovation_covariance :: "matrix \<Rightarrow> matrix \<Rightarrow> matrix \<Rightarrow> matrix" where
  "innovation_covariance JH P R = mat_add (mat_mul (mat_mul JH P) (transpose_m JH)) R"

text \<open>\<open>K = (P*JH.T) * np.linalg.inv(S)\<close>, given the inverse\<close>

definition kalman_gain :: "matrix \<Rightarrow> matrix \<Rightarrow> matrix \<Rightarrow> matrix" where
  "kalman_gain P JH Sinv = mat_mul (mat_mul P (transpose_m JH)) Sinv"

text \<open>\<open>P = (I - (K*JH))*P\<close>, where \<open>I\<close> is \<open>np.eye(numstates)\<close> with \<open>numstates = 5\<close>\<close>

definition correct_covariance :: "matrix \<Rightarrow> matrix \<Rightarrow> matrix \<Rightarrow> matrix" where
  "correct_covariance K JH P = mat_mul (mat_sub (eye 5) (mat_mul K JH)) P"

text \<open>
  The statements of the measurement update, in the order of the loop body. \<open>Z\<close> is the
  column \<open>measurements[:,filterstep]\<close>, whatever the flag.
\<close>

definition measurement_update :: "matrix \<Rightarrow> bool \<Rightarrow> vec \<Rightarrow> vec \<times> matrix \<Rightarrow> error + step_vars" where
  "measurement_update R GPS Zcol s =
     (let x = fst s; P = snd s;
          hx = [x ! 0, x ! 1];
          JH = measurement_jacobian GPS;
          S = innovation_covariance JH P R
      in case linalg_inv S of
           Inl e \<Rightarrow> Inl e
         | Inr Sinv \<Rightarrow>
             (let K = kalman_gain P JH Sinv;
                  Z = Zcol;
                  y = vec_sub Z hx;
                  x = vec_add x (mat_vec K y);
                  P = correct_covariance K JH P
              in Inr \<lparr>var_x = x, var_P = P, var_JH = JH, var_S = S, var_K = K,
                       var_Z = Z, var_y = y\<rparr>))"

subsection \<open>One pass of the loop body, and the loop\<close>

definition filterstep ::
  "real \<Rightarrow> matrix \<Rightarrow> matrix \<Rightarrow> real \<Rightarrow> bool \<Rightarrow> vec \<Rightarrow> vec \<times> matrix \<Rightarrow> error + step_vars" where
  "filterstep dt Q R yawrate GPS Zcol s =
     (case time_update dt Q yawrate s of
        Inl e \<Rightarrow> Inl e
      | Inr (x, JA, P) \<Rightarrow> measurement_update R GPS Zcol (x, P))"

text \<open>
  \<open>for filterstep in range(m)\<close>: each element of the list is one index of the logged
  arrays, \<open>(yawrate[i], GPS[i], measurements[:,i])\<close>; only \<open>x\<close> and \<open>P\<close> are carried over.
\<close>

fun filter_loop ::
  "real \<Rightarrow> matrix \<Rightarrow> matrix \<Rightarrow> (real \<times> bool \<times> vec) list \<Rightarrow> vec \<times> matrix \<Rightarrow> error + (vec \<times> matrix)" where
  "filter_loop dt Q R [] s = Inr s"
| "filter_loop dt Q R ((yawrate, GPS, Zcol) # rest) s =
     (case filterstep dt Q R yawrate GPS Zcol s of
        Inl e \<Rightarrow> Inl e
      | Inr v \<Rightarrow> filter_loop dt Q R rest (var_x v, var_P v))"

subsection \<open>The notebook's configuration\<close>

definition dt_cfg :: real where
  "dt_cfg = 1 / 50"

definition P_cfg :: matrix where
  "P_cfg = mat 5 5 (\<lambda>i j. if i = j then 1000 else 0)"

definition Q_cfg :: matrix where
  "Q_cfg =
     (let sGPS = 0.5 * 8.8 * dt_cfg\<^sup>2; sCourse = 0.1 * dt_cfg;
          sVelocity = 8.8 * dt_cfg; sYaw = 1.0 * dt_cfg;
          d = [sGPS\<^sup>2, sGPS\<^sup>2, sCourse\<^sup>2, sVelocity\<^sup>2, sYaw\<^sup>2]
      in mat 5 5 (\<lambda>i j. if i = j then d ! i else 0))"

definition R_cfg :: matrix where
  "R_cfg = (let varGPS = 6.0 in [[varGPS\<^sup>2, 0], [0, varGPS\<^sup>2]])"

subsection \<open>The logged arrays and the run of the notebook\<close>

text \<open>
  The logged arrays \<open>yawrate\<close>, \<open>speed\<close>, \<open>course\<close>, \<open>latitude\<close>, \<open>longitude\<close> and
  \<open>altitude\<close> are columns of one data file, so they have one length. The positions are
  the running sums of the displacements between consecutive samples; \<open>np.hstack\<close> puts a
  \<open>0.0\<close> in front of the differences, so the first displacement is zero.
\<close>

definition RadiusEarth :: real where
  "RadiusEarth = 6378388.0"

text \<open>\<open>np.diff(a)\<close>\<close>

definition np_diff :: "real list \<Rightarrow> real list" where
  "np_diff a = map (\<lambda>i. a ! Suc i - a ! i) [0..<length a - 1]"

text \<open>\<open>np.cumsum(a)\<close>\<close>

fun cumsum_from :: "real \<Rightarrow> real list \<Rightarrow> real list" where
  "cumsum_from acc [] = []"
| "cumsum_from acc (a # as) = (acc + a) # cumsum_from (acc + a) as"

definition np_cumsum :: "real list \<Rightarrow> real list" where
  "np_cumsum a = cumsum_from 0 a"

text \<open>\<open>arc = 2.0*np.pi*(RadiusEarth+altitude)/360.0\<close>\<close>

definition arc :: "real list \<Rightarrow> real list" where
  "arc altitude = map (\<lambda>h. 2.0 * pi * (RadiusEarth + h) / 360.0) altitude"

text \<open>\<open>dx = arc * np.cos(latitude*np.pi/180.0) * np.hstack((0.0, np.diff(longitude)))\<close>\<close>

definition dx :: "real list \<Rightarrow> real list \<Rightarrow> real list \<Rightarrow> real list" where
  "dx latitude longitude altitude =
     map (\<lambda>i. arc altitude ! i * cos (latitude ! i * pi / 180.0) * (0.0 # np_diff longitude) ! i)
       [0..<length altitude]"

text \<open>\<open>dy = arc * np.hstack((0.0, np.diff(latitude)))\<close>\<close>

definition dy :: "real list \<Rightarrow> real list \<Rightarrow> real list" where
  "dy latitude altitude =
     map (\<lambda>i. arc altitude ! i * (0.0 # np_diff latitude) ! i) [0..<length altitude]"

text \<open>\<open>mx = np.cumsum(dx)\<close> and \<open>my = np.cumsum(dy)\<close>\<close>

definition mx :: "real list \<Rightarrow> real list \<Rightarrow> real list \<Rightarrow> real list" where
  "mx latitude longitude altitude = np_cumsum (dx latitude longitude altitude)"

definition my :: "real list \<Rightarrow> real list \<Rightarrow> real list" where
  "my latitude altitude = np_cumsum (dy latitude altitude)"

text \<open>\<open>ds = np.sqrt(dx**2+dy**2)\<close>\<close>

definition ds :: "real list \<Rightarrow> real list \<Rightarrow> real list \<Rightarrow> real list" where
  "ds latitude longitude altitude =
     map (\<lambda>i. sqrt ((dx latitude longitude altitude ! i)\<^sup>2 + (dy latitude altitude ! i)\<^sup>2))
       [0..<length altitude]"

text \<open>The array \<open>GPS = (ds != 0.0)\<close>, the ``GPS Trigger for Kalman Filter''.\<close>

definition GPS_trigger :: "real list \<Rightarrow> real list \<Rightarrow> real list \<Rightarrow> bool list" where
  "GPS_trigger latitude longitude altitude = map (\<lambda>s. s \<noteq> 0.0) (ds latitude longitude altitude)"

text \<open>
  The run of the notebook on the logged arrays with a measurement noise \<open>R\<close>: the course is
  turned to the mathematical orientation (\<open>course = (-course+90.0)\<close>), the initial state is
  \<open>[mx[0], my[0], course[0]/180.0*np.pi, speed[0]/3.6+0.001, yawrate[0]/180.0*np.pi]\<close>, the
  measurements are the columns of \<open>np.vstack((mx, my))\<close>, and the loop makes one pass for
  each of them, from the configured \<open>P\<close> with the configured \<open>dt\<close> and \<open>Q\<close>. On empty
  arrays \<open>mx[0]\<close> raises.
\<close>

definition notebook_run ::
  "matrix \<Rightarrow> real list \<Rightarrow> real list \<Rightarrow> real list \<Rightarrow> real list \<Rightarrow> real list \<Rightarrow> real list
     \<Rightarrow> error + (vec \<times> matrix)" where
  "notebook_run R yawrate speed course latitude longitude altitude =
     (let course = map (\<lambda>c. - c + 90.0) course;
          mx = mx latitude longitude altitude;
          my = my latitude altitude;
          GPS = GPS_trigger latitude longitude altitude;
          m = length mx
      in if m = 0 then Inl IndexError
         else
           filter_loop dt_cfg Q_cfg R
             (map (\<lambda>i. (yawrate ! i, GPS ! i, [mx ! i, my ! i])) [0..<m])
             ([mx ! 0, my ! 0, course ! 0 / 180.0 * pi, speed ! 0 / 3.6 + 0.001,
               yawrate ! 0 / 180.0 * pi], P_cfg))"

section \<open>Properties of covariance matrices\<close>

text \<open>
  The vocabulary of the statements about the covariance: symmetry, a non-negative diagonal,
  the quadratic form \<open>v\<^sup>T A v\<close>, and positive (semi)definiteness of an \<open>n\<close> x \<open>n\<close> matrix.
\<close>

definition symmetric_m :: "nat \<Rightarrow> matrix \<Rightarrow> bool" where
  "symmetric_m n A = list_all (\<lambda>i. list_all (\<lambda>j. A ! i ! j = A ! j ! i) [0..<n]) [0..<n]"

definition diag_nonneg :: "nat \<Rightarrow> matrix \<Rightarrow> bool" where
  "diag_nonneg n A = list_all (\<lambda>i. 0 \<le> A ! i ! i) [0..<n]"

definition quad_form :: "matrix \<Rightarrow> vec \<Rightarrow> real" where
  "quad_form A v =
     sum_list (map (\<lambda>i. sum_list (map (\<lambda>j. v ! i * A ! i ! j * v ! j) [0..<length v]))
       [0..<length v])"

definition psd :: "nat \<Rightarrow> matrix \<Rightarrow> bool" where
  "psd n A = (is_mat n n A \<and> symmetric_m n A \<and> (\<forall>v. length v = n \<longrightarrow> 0 \<le> quad_form A v))"

definition pd :: "nat \<Rightarrow> matrix \<Rightarrow> bool" where
  "pd n A = (is_mat n n A \<and> symmetric_m n A
     \<and> (\<forall>v. length v = n \<longrightarrow> v \<noteq> replicate n 0 \<longrightarrow> 0 < quad_form A v))"

section \<open>Basic facts about the model\<close>

subsection \<open>Lists of fixed length\<close>

lemma length5E:
  assumes "length (x::'a list) = 5"
  obtains a b c d e where "x = [a, b, c, d, e]"
  using assms by (auto simp: eval_nat_numeral length_Suc_conv)

lemma length_vec_sub: "length (vec_sub u v) = length u"
  by (simp add: vec_sub_def)

lemma vec_add_zero: "length u = n \<Longrightarrow> vec_add u (map (\<lambda>i. 0) [0..<n]) = u"
  by (auto simp: vec_add_def intro: nth_equalityI)

subsection \<open>Shapes and entries of matrices\<close>

lemma length_mat [simp]: "length (mat r c f) = r"
  by (simp add: mat_def)

lemma nrows_mat [simp]: "nrows (mat r c f) = r"
  by (simp add: nrows_def)

lemma mat_nth [simp]: "i < r \<Longrightarrow> j < c \<Longrightarrow> mat r c f ! i ! j = f i j"
  by (simp add: mat_def)

lemma mat_row_length [simp]: "i < r \<Longrightarrow> length (mat r c f ! i) = c"
  by (simp add: mat_def)

lemma ncols_mat [simp]: "0 < r \<Longrightarrow> ncols (mat r c f) = c"
  by (cases r) (simp_all add: ncols_def mat_def upt_conv_Cons del: upt_Suc)

lemma is_mat_mat [simp]: "is_mat r c (mat r c f)"
  by (simp add: is_mat_def mat_def list_all_iff)

lemma mat_cong:
  "r = r' \<Longrightarrow> c = c' \<Longrightarrow> (\<And>i j. i < r' \<Longrightarrow> j < c' \<Longrightarrow> f i j = g i j)
     \<Longrightarrow> mat r c f = mat r' c' g"
  by (simp add: mat_def)

lemma is_mat_nrows: "is_mat r c A \<Longrightarrow> nrows A = r"
  by (simp add: is_mat_def nrows_def)

lemma is_mat_ncols: "is_mat r c A \<Longrightarrow> 0 < r \<Longrightarrow> ncols A = c"
  by (cases A) (simp_all add: is_mat_def ncols_def)

lemma is_mat_row: "is_mat r c A \<Longrightarrow> i < r \<Longrightarrow> length (A ! i) = c"
  by (simp add: is_mat_def list_all_length)

lemma mat_of_entries: "is_mat r c A \<Longrightarrow> mat r c (\<lambda>i j. A ! i ! j) = A"
  by (rule nth_equalityI) (auto simp: is_mat_def list_all_length mat_def intro: nth_equalityI)

lemma zero_5x2: "mat 5 2 (\<lambda>_ _. 0) = [[0, 0], [0, 0], [0, 0], [0, 0], [0, 0]]"
  by (simp add: mat_def eval_nat_numeral)

lemma zero_2x5: "mat 2 5 (\<lambda>_ _. 0) = [[0, 0, 0, 0, 0], [0, 0, 0, 0, 0]]"
  by (simp add: mat_def eval_nat_numeral)

text \<open>
  In exact arithmetic a pivot of the factorisation is zero exactly when the determinant is,
  and the two substitutions give the adjugate over the determinant.
\<close>

lemma linalg_inv_eq:
  "linalg_inv S =
     (if det2 S = 0 then Inl LinAlgError
      else Inr [[S ! 1 ! 1 / det2 S, - (S ! 0 ! 1) / det2 S],
                [- (S ! 1 ! 0) / det2 S, S ! 0 ! 0 / det2 S]])"
proof -
  define a b c d where "a = S ! 0 ! 0" and "b = S ! 0 ! 1" and "c = S ! 1 ! 0" and "d = S ! 1 ! 1"
  note abcd = a_def [symmetric] b_def [symmetric] c_def [symmetric] d_def [symmetric]
  have "(let swap = \<bar>a\<bar> < \<bar>c\<bar>;
          u00 = (if swap then c else a); u01 = (if swap then d else b)
      in if u00 = 0 then Inl LinAlgError
         else
           (let l = (if swap then a else c) / u00;
                u11 = (if swap then b else d) - l * u01
            in if u11 = 0 then Inl LinAlgError
               else
                 (let c0 = lu_solve l u00 u01 u11 (if swap then (0, 1) else (1, 0));
                      c1 = lu_solve l u00 u01 u11 (if swap then (1, 0) else (0, 1))
                  in Inr [[fst c0, fst c1],
                          [snd c0, snd c1]])))
     = (if a * d - b * c = 0 then Inl LinAlgError
      else Inr [[d / (a * d - b * c), - b / (a * d - b * c)],
                [- c / (a * d - b * c), a / (a * d - b * c)]])"
  proof (cases "\<bar>a\<bar> < \<bar>c\<bar>")
    case True
    then have c: "c \<noteq> 0" by auto
    show ?thesis
    proof (cases "b - a / c * d = 0")
      case z: True
      then have "a * d - b * c = 0" using c by (simp add: field_simps)
      then show ?thesis using True c z by (simp add: Let_def)
    next
      case nz: False
      then have dn: "a * d - b * c \<noteq> 0" using c by (simp add: field_simps)
      have e: "b - a * d / c = - (a * d - b * c) / c" using c by (simp add: field_simps)
      show ?thesis using True c nz
        apply (simp add: Let_def lu_solve_def)
        apply (simp only: e)
        using c dn apply (simp add: field_simps)
        done
    qed
  next
    case False
    show ?thesis
    proof (cases "a = 0")
      case True
      with False have "c = 0" by auto
      then show ?thesis using True False by (simp add: Let_def)
    next
      case a: False
      show ?thesis
      proof (cases "d - c / a * b = 0")
        case z: True
        then have "a * d - b * c = 0" using a by (simp add: field_simps)
        then show ?thesis using False a z by (simp add: Let_def)
      next
        case nz: False
        then have dn: "a * d - b * c \<noteq> 0" using a by (simp add: field_simps)
        have e: "d - c * b / a = (a * d - b * c) / a" using a by (simp add: field_simps)
        show ?thesis using False a nz
          apply (simp add: Let_def lu_solve_def)
          apply (simp only: e)
          using a dn apply (simp add: field_simps)
          done
      qed
    qed
  qed
  moreover have "(if sw then S ! 1 else S ! 0) ! j = (if sw then S ! 1 ! j else S ! 0 ! j)"
    and "(if sw then S ! 0 else S ! 1) ! j = (if sw then S ! 0 ! j else S ! 1 ! j)" for sw j
    by simp_all
  ultimately show ?thesis
    unfolding linalg_inv_def det2_def Let_def abcd by (simp only: abcd)
qed

text \<open>On a diagonal matrix the pivots are the diagonal entries.\<close>

lemma linalg_inv_diagonal:
  "linalg_inv [[r1, 0], [0, r2]] =
     (if r1 = 0 \<or> r2 = 0 then Inl LinAlgError else Inr [[1 / r1, 0], [0, 1 / r2]])"
  by (simp add: linalg_inv_def lu_solve_def Let_def)

lemma linalg_inv_shape: "linalg_inv S = Inr T \<Longrightarrow> is_mat 2 2 T"
  by (auto simp: linalg_inv_eq is_mat_def split: if_splits)

subsection \<open>Products with a zero matrix and with the identity\<close>

lemma sum_list_all_zero: "(\<And>k. k < n \<Longrightarrow> f k = (0::real)) \<Longrightarrow> sum_list (map f [0..<n]) = 0"
  by (induction n) simp_all

lemma mat_mul_zero_right:
  assumes "\<And>k j. k < nrows B \<Longrightarrow> j < ncols B \<Longrightarrow> B ! k ! j = 0"
  shows "mat_mul A B = mat (nrows A) (ncols B) (\<lambda>_ _. 0)"
  unfolding mat_mul_def by (rule mat_cong) (simp_all add: sum_list_all_zero assms)

lemma mat_mul_zero_left:
  assumes "\<And>i k. i < nrows A \<Longrightarrow> k < nrows B \<Longrightarrow> A ! i ! k = 0"
  shows "mat_mul A B = mat (nrows A) (ncols B) (\<lambda>_ _. 0)"
  unfolding mat_mul_def by (rule mat_cong) (simp_all add: sum_list_all_zero assms)

lemma mat_vec_zero:
  "length v = c \<Longrightarrow> mat_vec (mat r c (\<lambda>_ _. 0)) v = map (\<lambda>i. 0) [0..<r]"
  by (simp add: mat_vec_def sum_list_all_zero)

lemma sum_list_delta:
  "i < n \<Longrightarrow> sum_list (map (\<lambda>k. (if i = k then 1 else 0) * f k) [0..<n]) = (f i :: real)"
proof (induction n)
  case 0
  then show ?case by simp
next
  case (Suc n)
  show ?case
  proof (cases "i = n")
    case True
    then show ?thesis by (simp add: sum_list_all_zero)
  next
    case False
    with Suc show ?thesis by simp
  qed
qed

lemma eye_mul:
  assumes A: "is_mat n c A" and n: "0 < n"
  shows "mat_mul (eye n) A = A"
proof -
  have "mat_mul (eye n) A =
      mat n c (\<lambda>i j. sum_list (map (\<lambda>k. eye n ! i ! k * A ! k ! j) [0..<n]))"
    by (simp add: mat_mul_def is_mat_nrows[OF A] is_mat_ncols[OF A n] eye_def)
  also have "\<dots> = mat n c (\<lambda>i j. A ! i ! j)"
  proof (rule mat_cong[OF refl refl])
    fix i j assume i: "i < n" and "j < c"
    have "sum_list (map (\<lambda>k. eye n ! i ! k * A ! k ! j) [0..<n])
        = sum_list (map (\<lambda>k. (if i = k then 1 else 0) * A ! k ! j) [0..<n])"
      using i by (intro arg_cong[where f=sum_list] map_cong) (simp_all add: eye_def)
    then show "sum_list (map (\<lambda>k. eye n ! i ! k * A ! k ! j) [0..<n]) = A ! i ! j"
      using i by (simp add: sum_list_delta)
  qed
  finally show ?thesis using A by (simp add: mat_of_entries)
qed

lemma identity_minus_zero_gain:
  "mat_sub (eye 5) (mat_mul (mat 5 2 (\<lambda>_ _. 0)) (mat 2 5 (\<lambda>_ _. 0))) = eye 5"
proof -
  have KJ: "mat_mul (mat 5 2 (\<lambda>_ _. 0)) (mat 2 5 (\<lambda>_ _. 0)) = mat 5 5 (\<lambda>_ _. 0)"
    by (subst mat_mul_zero_left) simp_all
  show ?thesis
    unfolding KJ mat_sub_def eye_def by (simp cong: mat_cong)
qed

subsection \<open>Python's modulo and the heading normalisation\<close>

lemma py_mod_range:
  assumes "0 < b"
  shows "0 \<le> py_mod a b" and "py_mod a b < b"
proof -
  have b: "b * (a / b) = a" using assms by simp
  have "b * of_int \<lfloor>a / b\<rfloor> \<le> b * (a / b)"
    using assms by (intro mult_left_mono) simp_all
  with b show "0 \<le> py_mod a b" by (simp add: py_mod_def)
  have "a / b < of_int \<lfloor>a / b\<rfloor> + 1" by linarith
  with assms have "b * (a / b) < b * (of_int \<lfloor>a / b\<rfloor> + 1)"
    by (intro mult_strict_left_mono)
  with b show "py_mod a b < b" by (simp add: py_mod_def algebra_simps)
qed

lemma wrap_range: "- pi \<le> wrap a" "wrap a < pi"
  using py_mod_range [of "2 * pi" "a + pi"] by (simp_all add: wrap_def)

lemma wrap_pi: "wrap pi = - pi"
  by (simp add: wrap_def py_mod_def)

lemma wrap_odd_multiple: "wrap ((2 * of_int k + 1) * pi) = - pi"
proof -
  have "((2 * of_int k + 1) * pi + pi) / (2 * pi) = of_int (k + 1)"
    by (simp add: field_simps)
  then have "\<lfloor>((2 * of_int k + 1) * pi + pi) / (2 * pi)\<rfloor> = k + 1"
    by (simp only: floor_of_int)
  then show ?thesis
    by (simp add: wrap_def py_mod_def algebra_simps)
qed

lemma cos_fiftieth: "cos (1/50 :: real) \<noteq> 1"
proof -
  have "cos (1/50 :: real) < cos 0"
    using pi_ge_two by (intro cos_monotone_0_pi) simp_all
  then show ?thesis by simp
qed

subsection \<open>Sums over index ranges\<close>

lemma sum_list_upt: "sum_list (map f [0..<n]) = (\<Sum>k<n. f k)"
  by (simp add: interv_sum_list_conv_sum_set_nat atLeast0LessThan)

lemma sum_two: "(\<Sum>b<(2::nat). f b) = f 0 + (f 1 :: real)"
  by (simp add: eval_nat_numeral)

lemma sum_five: "(\<Sum>i<(5::nat). f i) = f 0 + f 1 + f 2 + f 3 + (f 4 :: real)"
  by (simp add: eval_nat_numeral)

lemma sum_first_two:
  fixes f :: "nat \<Rightarrow> real"
  shows "(\<Sum>k<5. (if k < 2 then f k else 0) * g k) = f 0 * g 0 + f 1 * g 1"
  by (simp add: eval_nat_numeral)

lemma sum_delta_right:
  fixes f :: "nat \<Rightarrow> real"
  shows "(\<Sum>l<n. f l * (if l = i then 1 else 0)) = (if i < n then f i else 0)"
    and "(\<Sum>l<n. f l * (if i = l then 1 else 0)) = (if i < n then f i else 0)"
proof -
  have "(\<Sum>l<n. f l * (if l = i then 1 else 0)) = (\<Sum>l<n. if l = i then f l else 0)"
    by (intro sum.cong refl) simp
  also have "\<dots> = (if i < n then f i else 0)" by (simp add: sum.delta)
  finally show "(\<Sum>l<n. f l * (if l = i then 1 else 0)) = (if i < n then f i else 0)" .
  have "(\<Sum>l<n. f l * (if i = l then 1 else 0)) = (\<Sum>l<n. if l = i then f l else 0)"
    by (intro sum.cong refl) simp
  also have "\<dots> = (if i < n then f i else 0)" by (simp add: sum.delta)
  finally show "(\<Sum>l<n. f l * (if i = l then 1 else 0)) = (if i < n then f i else 0)" .
qed

lemma sum_delta_left:
  fixes f :: "nat \<Rightarrow> real"
  shows "(\<Sum>k<n. (if k = i then 1 else 0) * f k) = (if i < n then f i else 0)"
    and "(\<Sum>k<n. (if i = k then 1 else 0) * f k) = (if i < n then f i else 0)"
  using sum_delta_right [where f=f and n=n and i=i] by (simp_all add: mult.commute)

lemma sum4_reorder:
  fixes t :: "nat \<Rightarrow> nat \<Rightarrow> nat \<Rightarrow> nat \<Rightarrow> real"
  shows "(\<Sum>i<n. \<Sum>j<n. \<Sum>k<m. \<Sum>l<m. t i j k l) = (\<Sum>l<m. \<Sum>k<m. \<Sum>i<n. \<Sum>j<n. t i j k l)"
proof -
  have "(\<Sum>i<n. \<Sum>j<n. \<Sum>k<m. \<Sum>l<m. t i j k l) = (\<Sum>i<n. \<Sum>j<n. \<Sum>l<m. \<Sum>k<m. t i j k l)"
    by (intro sum.cong refl sum.swap)
  also have "\<dots> = (\<Sum>i<n. \<Sum>l<m. \<Sum>j<n. \<Sum>k<m. t i j k l)"
    by (intro sum.cong refl sum.swap)
  also have "\<dots> = (\<Sum>l<m. \<Sum>i<n. \<Sum>j<n. \<Sum>k<m. t i j k l)"
    by (rule sum.swap)
  also have "\<dots> = (\<Sum>l<m. \<Sum>i<n. \<Sum>k<m. \<Sum>j<n. t i j k l)"
    by (intro sum.cong refl sum.swap)
  also have "\<dots> = (\<Sum>l<m. \<Sum>k<m. \<Sum>i<n. \<Sum>j<n. t i j k l)"
    by (intro sum.cong refl sum.swap)
  finally show ?thesis .
qed

subsection \<open>Quadratic forms over index ranges\<close>

text \<open>
  The algebra behind the covariance statements, on functions of indices: a congruence
  \<open>A P A\<^sup>T\<close> turns the quadratic form of \<open>P\<close> at \<open>v\<close> into its form at \<open>A\<^sup>T v\<close>; and the
  correction completes a square in the two measured components.
\<close>

lemma quad_congruence:
  fixes A P :: "nat \<Rightarrow> nat \<Rightarrow> real" and v :: "nat \<Rightarrow> real"
  shows "(\<Sum>i<n. \<Sum>j<n. v i * (\<Sum>k<m. (\<Sum>l<m. A i l * P l k) * A j k) * v j)
       = (\<Sum>l<m. \<Sum>k<m. (\<Sum>i<n. v i * A i l) * P l k * (\<Sum>j<n. v j * A j k))"
proof -
  have "(\<Sum>i<n. \<Sum>j<n. v i * (\<Sum>k<m. (\<Sum>l<m. A i l * P l k) * A j k) * v j)
      = (\<Sum>i<n. \<Sum>j<n. \<Sum>k<m. \<Sum>l<m. v i * A i l * P l k * (v j * A j k))"
    by (simp add: sum_distrib_left sum_distrib_right mult_ac)
  also have "\<dots> = (\<Sum>l<m. \<Sum>k<m. \<Sum>i<n. \<Sum>j<n. v i * A i l * P l k * (v j * A j k))"
    by (rule sum4_reorder)
  also have "\<dots> = (\<Sum>l<m. \<Sum>k<m. (\<Sum>i<n. v i * A i l) * P l k * (\<Sum>j<n. v j * A j k))"
    by (simp add: sum_distrib_left sum_distrib_right mult_ac)
  finally show ?thesis .
qed

lemma quad_shift:
  fixes P :: "nat \<Rightarrow> nat \<Rightarrow> real" and v u :: "nat \<Rightarrow> real"
  assumes sym: "\<And>i j. i < n \<Longrightarrow> j < n \<Longrightarrow> P i j = P j i"
  shows "(\<Sum>i<n. \<Sum>j<n. (v i - u i) * P i j * (v j - u j))
       = (\<Sum>i<n. \<Sum>j<n. v i * P i j * v j)
         - 2 * (\<Sum>i<n. u i * (\<Sum>j<n. P i j * v j))
         + (\<Sum>i<n. \<Sum>j<n. u i * P i j * u j)"
proof -
  define A where "A = (\<Sum>i<n. \<Sum>j<n. v i * P i j * v j)"
  define B where "B = (\<Sum>i<n. \<Sum>j<n. u i * P i j * v j)"
  define C where "C = (\<Sum>i<n. \<Sum>j<n. v i * P i j * u j)"
  define D where "D = (\<Sum>i<n. \<Sum>j<n. u i * P i j * u j)"
  have "C = (\<Sum>i<n. \<Sum>j<n. u j * P j i * v i)"
    unfolding C_def by (intro sum.cong refl) (simp add: sym mult_ac)
  also have "\<dots> = B"
    unfolding B_def by (rule sum.swap)
  finally have sw: "C = B" .
  have e: "(\<Sum>i<n. \<Sum>j<n. (v i - u i) * P i j * (v j - u j)) = A - B - C + D"
    unfolding A_def B_def C_def D_def
    by (simp add: algebra_simps sum_subtractf sum.distrib)
  have B': "(\<Sum>i<n. u i * (\<Sum>j<n. P i j * v j)) = B"
    unfolding B_def by (simp add: sum_distrib_left mult_ac)
  show ?thesis
    unfolding e B' sw A_def [symmetric] D_def [symmetric] by simp
qed

lemma correction_quad:
  fixes P :: "nat \<Rightarrow> nat \<Rightarrow> real" and v :: "nat \<Rightarrow> real" and T00 T01 T10 T11 :: real
  assumes sym: "\<And>i j. i < n \<Longrightarrow> j < n \<Longrightarrow> P i j = P j i" and n: "1 < n"
  defines "w \<equiv> \<lambda>a. \<Sum>j<n. P a j * v j"
  defines "K0 \<equiv> \<lambda>i. P i 0 * T00 + P i 1 * T10"
    and "K1 \<equiv> \<lambda>i. P i 0 * T01 + P i 1 * T11"
  shows "(\<Sum>i<n. \<Sum>j<n. v i * (P i j - (K0 i * P 0 j + K1 i * P 1 j)) * v j)
       = (\<Sum>i<n. \<Sum>j<n. v i * P i j * v j)
         - ((T00 * w 0 + T10 * w 1) * w 0 + (T01 * w 0 + T11 * w 1) * w 1)"
proof -
  have A: "(\<Sum>i<n. v i * P i a) = w a" if "a < n" for a
    unfolding w_def using that by (intro sum.cong refl) (simp add: sym mult.commute)
  have B0: "(\<Sum>i<n. v i * K0 i) = T00 * w 0 + T10 * w 1"
  proof -
    have "(\<Sum>i<n. v i * K0 i) = T00 * (\<Sum>i<n. v i * P i 0) + T10 * (\<Sum>i<n. v i * P i 1)"
      by (simp add: K0_def algebra_simps sum.distrib sum_distrib_left)
    then show ?thesis using n by (simp add: A)
  qed
  have B1: "(\<Sum>i<n. v i * K1 i) = T01 * w 0 + T11 * w 1"
  proof -
    have "(\<Sum>i<n. v i * K1 i) = T01 * (\<Sum>i<n. v i * P i 0) + T11 * (\<Sum>i<n. v i * P i 1)"
      by (simp add: K1_def algebra_simps sum.distrib sum_distrib_left)
    then show ?thesis using n by (simp add: A)
  qed
  have C: "(\<Sum>i<n. \<Sum>j<n. v i * (k i * P a j) * v j) = (\<Sum>i<n. v i * k i) * w a" for k a
    unfolding w_def by (simp add: sum_product mult_ac)
  have "(\<Sum>i<n. \<Sum>j<n. v i * (P i j - (K0 i * P 0 j + K1 i * P 1 j)) * v j)
      = (\<Sum>i<n. \<Sum>j<n. v i * P i j * v j)
        - ((\<Sum>i<n. \<Sum>j<n. v i * (K0 i * P 0 j) * v j) + (\<Sum>i<n. \<Sum>j<n. v i * (K1 i * P 1 j) * v j))"
    by (simp add: algebra_simps sum_subtractf sum.distrib)
  then show ?thesis by (simp only: C B0 B1)
qed

lemma det_pos_2d:
  fixes s00 s01 s11 :: real
  assumes pos: "\<And>a b. a \<noteq> 0 \<or> b \<noteq> 0 \<Longrightarrow> 0 < s00 * a\<^sup>2 + 2 * s01 * a * b + s11 * b\<^sup>2"
  shows "0 < s00 * s11 - s01 * s01"
proof -
  from pos [of 1 0] have s00: "0 < s00" by simp
  from pos [of s01 "- s00"] s00 have "0 < s00 * s01\<^sup>2 + 2 * s01 * s01 * (- s00) + s11 * (- s00)\<^sup>2"
    by simp
  also have "s00 * s01\<^sup>2 + 2 * s01 * s01 * (- s00) + s11 * (- s00)\<^sup>2 = s00 * (s00 * s11 - s01 * s01)"
    by (simp add: power2_eq_square algebra_simps)
  finally show ?thesis using s00 by (simp add: zero_less_mult_iff)
qed

lemma complete_square_2d:
  fixes q w0 w1 p00 p01 p11 r00 r01 r11 :: real
  assumes d: "(p00 + r00) * (p11 + r11) - (p01 + r01) * (p01 + r01) \<noteq> 0"
    and H1: "\<And>u0 u1. 0 \<le> q - 2 * (u0 * w0 + u1 * w1) + (p00 * u0\<^sup>2 + 2 * p01 * u0 * u1 + p11 * u1\<^sup>2)"
    and H2: "\<And>u0 u1. 0 \<le> r00 * u0\<^sup>2 + 2 * r01 * u0 * u1 + r11 * u1\<^sup>2"
  shows "0 \<le> q - (((p11 + r11) * w0 - (p01 + r01) * w1) * w0 + ((p00 + r00) * w1 - (p01 + r01) * w0) * w1)
                  / ((p00 + r00) * (p11 + r11) - (p01 + r01) * (p01 + r01))"
proof -
  define s00 s01 s11 where "s00 = p00 + r00" and "s01 = p01 + r01" and "s11 = p11 + r11"
  define dd where "dd = s00 * s11 - s01 * s01"
  define u0 u1 where "u0 = (s11 * w0 - s01 * w1) / dd" and "u1 = (s00 * w1 - s01 * w0) / dd"
  have dd: "dd \<noteq> 0" using d by (simp add: dd_def s00_def s01_def s11_def)
  have e0: "s00 * u0 + s01 * u1 = w0"
  proof -
    have "s00 * u0 + s01 * u1 = (s00 * (s11 * w0 - s01 * w1) + s01 * (s00 * w1 - s01 * w0)) / dd"
      by (simp add: u0_def u1_def add_divide_distrib)
    also have "s00 * (s11 * w0 - s01 * w1) + s01 * (s00 * w1 - s01 * w0) = dd * w0"
      by (simp add: dd_def algebra_simps)
    finally show ?thesis using dd by simp
  qed
  have e1: "s01 * u0 + s11 * u1 = w1"
  proof -
    have "s01 * u0 + s11 * u1 = (s01 * (s11 * w0 - s01 * w1) + s11 * (s00 * w1 - s01 * w0)) / dd"
      by (simp add: u0_def u1_def add_divide_distrib)
    also have "s01 * (s11 * w0 - s01 * w1) + s11 * (s00 * w1 - s01 * w0) = dd * w1"
      by (simp add: dd_def algebra_simps)
    finally show ?thesis using dd by simp
  qed
  have "s00 * u0\<^sup>2 + 2 * s01 * u0 * u1 + s11 * u1\<^sup>2 = u0 * (s00 * u0 + s01 * u1) + u1 * (s01 * u0 + s11 * u1)"
    by (simp add: power2_eq_square algebra_simps)
  then have sq: "s00 * u0\<^sup>2 + 2 * s01 * u0 * u1 + s11 * u1\<^sup>2 = u0 * w0 + u1 * w1"
    by (simp only: e0 e1)
  have "0 \<le> (q - 2 * (u0 * w0 + u1 * w1) + (p00 * u0\<^sup>2 + 2 * p01 * u0 * u1 + p11 * u1\<^sup>2))
           + (r00 * u0\<^sup>2 + 2 * r01 * u0 * u1 + r11 * u1\<^sup>2)"
    using H1 [of u0 u1] H2 [of u0 u1] by simp
  also have "\<dots> = q - 2 * (u0 * w0 + u1 * w1) + (s00 * u0\<^sup>2 + 2 * s01 * u0 * u1 + s11 * u1\<^sup>2)"
    by (simp add: s00_def s01_def s11_def algebra_simps)
  also have "\<dots> = q - (u0 * w0 + u1 * w1)"
    by (simp only: sq) simp
  also have "u0 * w0 + u1 * w1 = ((s11 * w0 - s01 * w1) * w0 + (s00 * w1 - s01 * w0) * w1) / dd"
    by (simp add: u0_def u1_def add_divide_distrib)
  finally show ?thesis
    by (simp add: dd_def s00_def s01_def s11_def)
qed

section \<open>Symmetric and positive semidefinite matrices\<close>

lemma symmetric_mD: "symmetric_m n A \<Longrightarrow> i < n \<Longrightarrow> j < n \<Longrightarrow> A ! i ! j = A ! j ! i"
  by (simp add: symmetric_m_def list_all_iff)

lemma symmetric_mI: "(\<And>i j. i < n \<Longrightarrow> j < n \<Longrightarrow> A ! i ! j = A ! j ! i) \<Longrightarrow> symmetric_m n A"
  by (simp add: symmetric_m_def list_all_iff)

lemma quad_form_sum: "quad_form A v = (\<Sum>i<length v. \<Sum>j<length v. v ! i * A ! i ! j * v ! j)"
  by (simp add: quad_form_def sum_list_upt)

lemma psd_symmetric: "psd n A \<Longrightarrow> symmetric_m n A"
  by (simp add: psd_def)

lemma psd_diag:
  assumes "psd n A" and "i < n"
  shows "0 \<le> A ! i ! i"
proof -
  let ?e = "(replicate n (0::real))[i := 1]"
  have e: "?e ! k = (if k = i then 1 else 0)" if "k < n" for k
    using that assms(2) by (simp add: nth_list_update)
  have "quad_form A ?e =
      (\<Sum>k<n. \<Sum>l<n. (if k = i then 1 else 0) * A ! k ! l * (if l = i then 1 else 0))"
    unfolding quad_form_sum by (auto simp: e intro!: sum.cong)
  also have "\<dots> = (\<Sum>k<n. (if k = i then 1 else 0) * A ! k ! i)"
    using assms(2) by (intro sum.cong refl) (simp add: sum_delta_right)
  also have "\<dots> = A ! i ! i"
    using assms(2) by (simp add: sum_delta_left)
  finally have "quad_form A ?e = A ! i ! i" .
  moreover have "0 \<le> quad_form A ?e" using assms(1) by (simp add: psd_def)
  ultimately show ?thesis by simp
qed

lemma psd_diag_nonneg: "psd n A \<Longrightarrow> diag_nonneg n A"
  by (simp add: diag_nonneg_def list_all_iff psd_diag)

lemma quad_form_diag:
  assumes "length v = n"
  shows "quad_form (mat n n (\<lambda>i j. if i = j then d i else 0)) v = (\<Sum>i<n. d i * (v ! i)\<^sup>2)"
proof -
  have "quad_form (mat n n (\<lambda>i j. if i = j then d i else 0)) v
      = (\<Sum>i<n. \<Sum>j<n. (v ! i * d i) * (if i = j then 1 else 0) * v ! j)"
    unfolding quad_form_sum assms by (intro sum.cong refl) simp
  also have "\<dots> = (\<Sum>i<n. \<Sum>j<n. (v ! i * d i * v ! j) * (if i = j then 1 else 0))"
    by (intro sum.cong refl) simp
  also have "\<dots> = (\<Sum>i<n. v ! i * d i * v ! i)"
    by (intro sum.cong refl) (simp add: sum_delta_right)
  finally show ?thesis by (simp add: power2_eq_square mult_ac)
qed

lemma psd_diag_matrix:
  assumes "\<And>i. i < n \<Longrightarrow> 0 \<le> d i"
  shows "psd n (mat n n (\<lambda>i j. if i = j then d i else 0))"
  unfolding psd_def
  by (auto simp: quad_form_diag assms intro!: symmetric_mI sum_nonneg)

lemma quad_form_block:
  "quad_form P [a, b, 0, 0, 0] =
     P ! 0 ! 0 * a\<^sup>2 + (P ! 0 ! 1 + P ! 1 ! 0) * a * b + P ! 1 ! 1 * b\<^sup>2"
  by (simp add: quad_form_def power2_eq_square algebra_simps)

lemma quad_form_two:
  "quad_form R [a, b] =
     R ! 0 ! 0 * a\<^sup>2 + (R ! 0 ! 1 + R ! 1 ! 0) * a * b + R ! 1 ! 1 * b\<^sup>2"
  by (simp add: quad_form_def power2_eq_square algebra_simps)

lemma pd_quad_nonneg:
  assumes "pd n R" and "length v = n"
  shows "0 \<le> quad_form R v"
proof (cases "v = replicate n 0")
  case True
  have "quad_form R (replicate n 0) = 0"
    by (simp add: quad_form_sum)
  with True show ?thesis by simp
next
  case False
  with assms show ?thesis by (simp add: pd_def less_imp_le)
qed

lemma pd_det_pos:
  assumes R: "pd 2 R"
  shows "0 < det2 R"
proof -
  have Rs: "R ! Suc 0 ! 0 = R ! 0 ! Suc 0"
    using R symmetric_mD [of 2 R 1 0] by (simp add: pd_def)
  have pos: "0 < R ! 0 ! 0 * a\<^sup>2 + 2 * R ! 0 ! 1 * a * b + R ! 1 ! 1 * b\<^sup>2"
    if "a \<noteq> 0 \<or> b \<noteq> 0" for a b
  proof -
    have "0 < quad_form R [a, b]"
      using R that by (auto simp: pd_def eval_nat_numeral)
    then show ?thesis
      unfolding quad_form_two by (simp add: Rs algebra_simps)
  qed
  have "0 < R ! 0 ! 0 * R ! 1 ! 1 - R ! 0 ! 1 * R ! 0 ! 1"
    by (rule det_pos_2d) (rule pos)
  then show ?thesis by (simp add: det2_def Rs)
qed

subsection \<open>The configured matrices\<close>

lemma det2_R_cfg: "det2 R_cfg = 1296"
  by (simp add: det2_def R_cfg_def)

lemma is_mat_P_cfg: "is_mat 5 5 P_cfg"
  by (simp add: P_cfg_def)

lemma Q_cfg_22: "Q_cfg ! 2 ! 2 = 1 / 250000"
  by (simp add: Q_cfg_def Let_def dt_cfg_def power2_eq_square)

lemma psd_P_cfg: "psd 5 P_cfg"
  unfolding P_cfg_def by (rule psd_diag_matrix) simp

lemma psd_Q_cfg: "psd 5 Q_cfg"
  unfolding Q_cfg_def Let_def
  by (rule psd_diag_matrix) (auto simp: eval_nat_numeral less_Suc_eq dt_cfg_def)

lemma pd_R_cfg: "pd 2 R_cfg"
proof -
  have q: "0 < quad_form R_cfg v" if "length v = 2" "v \<noteq> replicate 2 0" for v
  proof -
    from that(1) obtain a b where v: "v = [a, b]"
      by (auto simp: eval_nat_numeral length_Suc_conv)
    from that(2) have "a \<noteq> 0 \<or> b \<noteq> 0" by (auto simp: v eval_nat_numeral)
    then have "0 < a\<^sup>2 + b\<^sup>2" by (auto simp: sum_power2_gt_zero_iff)
    then show ?thesis unfolding v quad_form_two by (simp add: R_cfg_def)
  qed
  show ?thesis
    unfolding pd_def using q
    by (auto simp: R_cfg_def is_mat_def symmetric_m_def eval_nat_numeral)
qed

section \<open>The time update\<close>

subsection \<open>The two regimes of the state projection\<close>

lemma project_state_turning:
  assumes "length x = 5" and "\<not> \<bar>yawrate\<bar> < 0.0001" and "x ! 4 \<noteq> 0"
  shows "project_state yawrate dt x =
     Inr [x ! 0 + (x ! 3 / x ! 4) * (sin (x ! 4 * dt + x ! 2) - sin (x ! 2)),
          x ! 1 + (x ! 3 / x ! 4) * (- cos (x ! 4 * dt + x ! 2) + cos (x ! 2)),
          wrap (x ! 2 + x ! 4 * dt),
          x ! 3,
          x ! 4]"
proof -
  from assms(1) obtain a b c d e where x: "x = [a, b, c, d, e]"
    by (rule length5E)
  show ?thesis
    using assms(2,3) unfolding x by (simp add: project_state_def wrap_def Let_def)
qed

lemma project_state_straight:
  assumes "length x = 5" and "\<bar>yawrate\<bar> < 0.0001"
  shows "project_state yawrate dt x =
     Inr [x ! 0 + x ! 3 * dt * cos (x ! 2),
          x ! 1 + x ! 3 * dt * sin (x ! 2),
          x ! 2,
          x ! 3,
          0.0000001]"
proof -
  from assms(1) obtain a b c d e where x: "x = [a, b, c, d, e]"
    by (rule length5E)
  show ?thesis
    using assms(2) unfolding x by (simp add: project_state_def Let_def)
qed

lemma project_state_length: "project_state yawrate dt x = Inr x' \<Longrightarrow> length x' = length x"
  by (auto simp: project_state_def Let_def split: if_splits)

lemma jacobian_A_shape: "jacobian_A dt x = Inr JA \<Longrightarrow> is_mat 5 5 JA"
  by (auto simp: jacobian_A_def Let_def is_mat_def split: if_splits)

lemma project_covariance_shape: "is_mat 5 5 JA \<Longrightarrow> is_mat 5 5 (project_covariance JA P Q)"
  by (simp add: project_covariance_def mat_add_def mat_mul_def transpose_m_def
      is_mat_nrows is_mat_ncols)

lemma time_update_shape:
  assumes "time_update dt Q yawrate (x, P) = Inr (x1, JA, P1)"
  shows "length x1 = length x" and "is_mat 5 5 JA" and "is_mat 5 5 P1"
  using assms
  by (auto simp: time_update_def split: sum.splits
           dest: project_state_length jacobian_A_shape intro: project_covariance_shape)

lemma time_update_error: "time_update dt Q yawrate s = Inl e \<Longrightarrow> e = NonFinite"
  by (auto simp: time_update_def project_state_def jacobian_A_def Let_def
      split: sum.splits if_splits)

lemma time_update_straight:
  assumes "\<bar>yawrate\<bar> < 0.0001" and "length x = 5"
  shows "\<exists>x1 JA P1. time_update dt Q yawrate (x, P) = Inr (x1, JA, P1)"
  using assms project_state_straight [OF assms(2,1), of dt]
  by (simp add: time_update_def jacobian_A_def Let_def)

text \<open>Two inputs on which the time update is evaluated: a vehicle at rest on a straight
  sample, a vehicle moving east on a straight sample, and a moving vehicle on a turning
  sample.\<close>

lemma time_update_from_rest:
  "time_update (1/50) Q 0 ([0, 0, 0, 0, 0], P) =
     Inr ([0, 0, 0, 0, 0.0000001],
          [[1, 0, 0, 10000000 * sin (1 / 500000000), 0],
           [0, 1, 0, 10000000 * (1 - cos (1 / 500000000)), 0],
           [0, 0, 1, 0, 1/50],
           [0, 0, 0, 1, 0],
           [0, 0, 0, 0, 1]],
          project_covariance
          [[1, 0, 0, 10000000 * sin (1 / 500000000), 0],
           [0, 1, 0, 10000000 * (1 - cos (1 / 500000000)), 0],
           [0, 0, 1, 0, 1/50],
           [0, 0, 0, 1, 0],
           [0, 0, 0, 0, 1]] P Q)"
  by (simp add: time_update_def project_state_def jacobian_A_def)

lemma time_update_at_rest:
  "time_update (1/50) Q_cfg 0 ([0, 0, 0, 0, 0], P_cfg) =
     Inr ([0, 0, 0, 0, 0.0000001],
          [[1, 0, 0, 10000000 * sin (1 / 500000000), 0],
           [0, 1, 0, 10000000 * (1 - cos (1 / 500000000)), 0],
           [0, 0, 1, 0, 1/50],
           [0, 0, 0, 1, 0],
           [0, 0, 0, 0, 1]],
          project_covariance
          [[1, 0, 0, 10000000 * sin (1 / 500000000), 0],
           [0, 1, 0, 10000000 * (1 - cos (1 / 500000000)), 0],
           [0, 0, 1, 0, 1/50],
           [0, 0, 0, 1, 0],
           [0, 0, 0, 0, 1]] P_cfg Q_cfg)"
  by (rule time_update_from_rest)

lemma time_update_moving:
  "time_update (1/50) Q 0 ([0, 0, 0, 1, 0], P) =
     Inr ([1/50, 0, 0, 1, 0.0000001],
          [[1, 0, 10000000 * (cos (1 / 500000000) - 1), 10000000 * sin (1 / 500000000),
               200000 * cos (1 / 500000000) - 100000000000000 * sin (1 / 500000000)],
           [0, 1, 10000000 * sin (1 / 500000000), 10000000 * (1 - cos (1 / 500000000)),
               200000 * sin (1 / 500000000) - 100000000000000 * (1 - cos (1 / 500000000))],
           [0, 0, 1, 0, 1/50],
           [0, 0, 0, 1, 0],
           [0, 0, 0, 0, 1]],
          project_covariance
          [[1, 0, 10000000 * (cos (1 / 500000000) - 1), 10000000 * sin (1 / 500000000),
               200000 * cos (1 / 500000000) - 100000000000000 * sin (1 / 500000000)],
           [0, 1, 10000000 * sin (1 / 500000000), 10000000 * (1 - cos (1 / 500000000)),
               200000 * sin (1 / 500000000) - 100000000000000 * (1 - cos (1 / 500000000))],
           [0, 0, 1, 0, 1/50],
           [0, 0, 0, 1, 0],
           [0, 0, 0, 0, 1]] P Q)"
  by (simp add: time_update_def project_state_def jacobian_A_def power2_eq_square)

lemma time_update_turning_ex:
  "time_update (1/50) Q_cfg 1 ([0, 0, - (1/50), 1, 1], P_cfg) =
     Inr ([sin (1/50), cos (1/50) - 1, 0, 1, 1],
          [[1, 0, cos (1/50) - 1, sin (1/50), cos (1/50) / 50 - sin (1/50)],
           [0, 1, sin (1/50), 1 - cos (1/50), sin (1/50) / 50 - (1 - cos (1/50))],
           [0, 0, 1, 0, 1/50],
           [0, 0, 0, 1, 0],
           [0, 0, 0, 0, 1]],
          project_covariance
          [[1, 0, cos (1/50) - 1, sin (1/50), cos (1/50) / 50 - sin (1/50)],
           [0, 1, sin (1/50), 1 - cos (1/50), sin (1/50) / 50 - (1 - cos (1/50))],
           [0, 0, 1, 0, 1/50],
           [0, 0, 0, 1, 0],
           [0, 0, 0, 0, 1]] P_cfg Q_cfg)"
  by (simp add: time_update_def project_state_def jacobian_A_def py_mod_def)

lemma jacobian_A_before_ex:
  "jacobian_A (1/50) [0, 0, - (1/50), 1, 1] =
     Inr [[1, 0, 1 - cos (1/50), sin (1/50), 1 / 50 - sin (1/50)],
          [0, 1, sin (1/50), cos (1/50) - 1, 1 - cos (1/50)],
          [0, 0, 1, 0, 1/50],
          [0, 0, 0, 1, 0],
          [0, 0, 0, 0, 1]]"
  by (simp add: jacobian_A_def)

subsection \<open>The projected covariance\<close>

lemma project_covariance_nth:
  assumes "is_mat 5 5 JA" and "is_mat 5 5 P" and "i < 5" and "j < 5"
  shows "project_covariance JA P Q ! i ! j =
     (\<Sum>k<5. (\<Sum>l<5. JA ! i ! l * P ! l ! k) * JA ! j ! k) + Q ! i ! j"
  using assms
  by (simp add: project_covariance_def mat_add_def mat_mul_def transpose_m_def
      is_mat_nrows is_mat_ncols sum_list_upt)

lemma project_covariance_psd:
  assumes JA: "is_mat 5 5 JA" and P: "psd 5 P" and Q: "psd 5 Q"
  shows "psd 5 (project_covariance JA P Q)"
proof -
  have Pm: "is_mat 5 5 P" and Ps: "\<And>i j. i < 5 \<Longrightarrow> j < 5 \<Longrightarrow> P ! i ! j = P ! j ! i"
    and Qs: "\<And>i j. i < 5 \<Longrightarrow> j < 5 \<Longrightarrow> Q ! i ! j = Q ! j ! i"
    using P Q by (auto simp: psd_def dest: symmetric_mD)
  let ?P1 = "project_covariance JA P Q"
  have sym: "?P1 ! i ! j = ?P1 ! j ! i" if "i < 5" "j < 5" for i j
  proof -
    have "(\<Sum>k<5. (\<Sum>l<5. JA ! i ! l * P ! l ! k) * JA ! j ! k)
        = (\<Sum>k<5. \<Sum>l<5. JA ! i ! l * P ! l ! k * JA ! j ! k)"
      by (simp add: sum_distrib_right)
    also have "\<dots> = (\<Sum>k<5. \<Sum>l<5. JA ! j ! k * P ! k ! l * JA ! i ! l)"
      by (intro sum.cong refl) (simp add: Ps mult_ac)
    also have "\<dots> = (\<Sum>l<5. \<Sum>k<5. JA ! j ! k * P ! k ! l * JA ! i ! l)"
      by (rule sum.swap)
    also have "\<dots> = (\<Sum>l<5. (\<Sum>k<5. JA ! j ! k * P ! k ! l) * JA ! i ! l)"
      by (simp add: sum_distrib_right)
    finally show ?thesis
      using that by (simp add: project_covariance_nth [OF JA Pm] Qs)
  qed
  have q: "0 \<le> quad_form ?P1 v" if v: "length v = 5" for v
  proof -
    let ?u = "map (\<lambda>l. \<Sum>i<5. v ! i * JA ! i ! l) [0..<5]"
    have "quad_form ?P1 v =
        (\<Sum>i<5. \<Sum>j<5. v ! i * (\<Sum>k<5. (\<Sum>l<5. JA ! i ! l * P ! l ! k) * JA ! j ! k) * v ! j)
        + quad_form Q v"
      unfolding quad_form_sum v
      by (simp add: project_covariance_nth [OF JA Pm] algebra_simps sum.distrib)
    also have "(\<Sum>i<5. \<Sum>j<5. v ! i * (\<Sum>k<5. (\<Sum>l<5. JA ! i ! l * P ! l ! k) * JA ! j ! k) * v ! j)
        = (\<Sum>l<5. \<Sum>k<5. (\<Sum>i<5. v ! i * JA ! i ! l) * P ! l ! k * (\<Sum>j<5. v ! j * JA ! j ! k))"
      by (rule quad_congruence)
    also have "\<dots> = quad_form P ?u"
      unfolding quad_form_sum by simp
    finally have "quad_form ?P1 v = quad_form P ?u + quad_form Q v" .
    moreover have "0 \<le> quad_form P ?u" using P by (simp add: psd_def)
    moreover have "0 \<le> quad_form Q v" using Q v by (simp add: psd_def)
    ultimately show ?thesis by simp
  qed
  show ?thesis
    unfolding psd_def using sym q
    by (simp add: project_covariance_shape [OF JA] symmetric_mI)
qed

lemma time_update_psd:
  assumes "psd 5 P" and "psd 5 Q" and "time_update dt Q yawrate (x, P) = Inr (x1, JA, P1)"
  shows "psd 5 P1"
proof -
  from assms(3) have "is_mat 5 5 JA" and "P1 = project_covariance JA P Q"
    by (auto simp: time_update_def split: sum.splits dest: jacobian_A_shape)
  with assms(1,2) show ?thesis by (simp add: project_covariance_psd)
qed

lemma diag_nonneg_zero_diag:
  "symmetric_m 5 [[0, 0, 0, 0, 0], [0, 0, 0, 0, 0], [0, 0, 0, 0, - 1], [0, 0, 0, 0, 0], [0, 0, - 1, 0, 0]]
   \<and> diag_nonneg 5 [[0, 0, 0, 0, 0], [0, 0, 0, 0, 0], [0, 0, 0, 0, - 1], [0, 0, 0, 0, 0], [0, 0, - 1, 0, 0]]"
  by (simp add: symmetric_m_def diag_nonneg_def eval_nat_numeral)

lemma bad_entry:
  "project_covariance
          [[1, 0, 0, 10000000 * sin (1 / 500000000), 0],
           [0, 1, 0, 10000000 * (1 - cos (1 / 500000000)), 0],
           [0, 0, 1, 0, 1/50],
           [0, 0, 0, 1, 0],
           [0, 0, 0, 0, 1]]
          [[0, 0, 0, 0, 0], [0, 0, 0, 0, 0], [0, 0, 0, 0, - 1], [0, 0, 0, 0, 0], [0, 0, - 1, 0, 0]]
          Q_cfg ! 2 ! 2 = - (1 / 25) + 1 / 250000"
  by (subst project_covariance_nth) (simp_all add: is_mat_def sum_five Q_cfg_22)

section \<open>The measurement update\<close>

lemma measurement_update_error: "measurement_update R GPS Zcol s = Inl e \<Longrightarrow> e = LinAlgError"
  by (auto simp: measurement_update_def Let_def linalg_inv_eq split: sum.splits if_splits)

subsection \<open>Without a position fix\<close>

lemma measurement_jacobian_False: "measurement_jacobian False = mat 2 5 (\<lambda>_ _. 0)"
  by (simp add: measurement_jacobian_def mat_def eval_nat_numeral)

lemma innovation_covariance_no_fix:
  assumes P: "is_mat 5 5 P"
  shows "innovation_covariance (measurement_jacobian False) P R = mat 2 2 (\<lambda>i j. R ! i ! j)"
proof -
  let ?JH = "mat 2 5 (\<lambda>_ _. 0)"
  have T: "transpose_m ?JH = mat 5 2 (\<lambda>_ _. 0)"
    by (simp add: transpose_m_def cong: mat_cong)
  have JP: "mat_mul ?JH P = mat 2 5 (\<lambda>_ _. 0)"
    using P by (subst mat_mul_zero_left) (simp_all add: is_mat_nrows is_mat_ncols)
  have S0: "mat_mul (mat_mul ?JH P) (transpose_m ?JH) = mat 2 2 (\<lambda>_ _. 0)"
    unfolding JP T by (subst mat_mul_zero_left) simp_all
  show ?thesis
    unfolding measurement_jacobian_False innovation_covariance_def S0
    by (simp add: mat_add_def cong: mat_cong)
qed

lemma gain_no_fix:
  assumes P: "is_mat 5 5 P" and T: "is_mat 2 2 T"
  shows "kalman_gain P (measurement_jacobian False) T = mat 5 2 (\<lambda>_ _. 0)"
proof -
  have Tr: "transpose_m (mat 2 5 (\<lambda>_ _. 0)) = mat 5 2 (\<lambda>_ _. 0)"
    by (simp add: transpose_m_def cong: mat_cong)
  have PJ: "mat_mul P (mat 5 2 (\<lambda>_ _. 0)) = mat 5 2 (\<lambda>_ _. 0)"
    using P by (subst mat_mul_zero_right) (simp_all add: is_mat_nrows)
  show ?thesis
    unfolding kalman_gain_def measurement_jacobian_False Tr PJ using T
    by (subst mat_mul_zero_left) (simp_all add: is_mat_nrows is_mat_ncols)
qed

lemma correct_covariance_no_fix:
  assumes P: "is_mat 5 5 P"
  shows "correct_covariance (mat 5 2 (\<lambda>_ _. 0)) (measurement_jacobian False) P = P"
  unfolding correct_covariance_def measurement_jacobian_False identity_minus_zero_gain
  using P by (simp add: eye_mul)

lemma measurement_update_no_fix:
  assumes P: "is_mat 5 5 P" and x: "length x = 5" and Z: "length Zcol = 2"
    and R: "det2 R \<noteq> 0"
  shows "measurement_update R False Zcol (x, P) =
     Inr \<lparr>var_x = x, var_P = P, var_JH = mat 2 5 (\<lambda>_ _. 0),
          var_S = mat 2 2 (\<lambda>i j. R ! i ! j),
          var_K = mat 5 2 (\<lambda>_ _. 0), var_Z = Zcol,
          var_y = vec_sub Zcol [x ! 0, x ! 1]\<rparr>"
proof -
  let ?S = "mat 2 2 (\<lambda>i j. R ! i ! j)"
  have "det2 ?S = det2 R" by (simp add: det2_def)
  with R obtain Sinv where Sinv: "linalg_inv ?S = Inr Sinv" and Sshape: "is_mat 2 2 Sinv"
    by (simp add: linalg_inv_eq is_mat_def)
  have xn: "vec_add x (mat_vec (mat 5 2 (\<lambda>_ _. 0)) y) = x" if "length y = 2" for y
    using x that by (subst mat_vec_zero) (simp_all add: vec_add_zero)
  note pieces = innovation_covariance_no_fix [OF P, unfolded measurement_jacobian_False]
    gain_no_fix [OF P Sshape, unfolded measurement_jacobian_False]
    correct_covariance_no_fix [OF P, unfolded measurement_jacobian_False]
  show ?thesis
    unfolding measurement_update_def
    using Z
    by (simp add: Let_def measurement_jacobian_False pieces Sinv xn length_vec_sub)
qed

lemma measurement_update_no_fix_covariance:
  assumes P: "is_mat 5 5 P" and R: "det2 R \<noteq> 0"
  shows "\<exists>v. measurement_update R False Zcol (x, P) = Inr v \<and> var_P v = P
           \<and> var_S v = mat 2 2 (\<lambda>i j. R ! i ! j)
           \<and> length (var_x v) = length x"
proof -
  let ?S = "mat 2 2 (\<lambda>i j. R ! i ! j)"
  have "det2 ?S = det2 R" by (simp add: det2_def)
  with R obtain Sinv where Sinv: "linalg_inv ?S = Inr Sinv" and Sshape: "is_mat 2 2 Sinv"
    by (simp add: linalg_inv_eq is_mat_def)
  note pieces = innovation_covariance_no_fix [OF P, unfolded measurement_jacobian_False]
    gain_no_fix [OF P Sshape, unfolded measurement_jacobian_False]
    correct_covariance_no_fix [OF P, unfolded measurement_jacobian_False]
  show ?thesis
    unfolding measurement_update_def
    by (simp add: Let_def measurement_jacobian_False pieces Sinv vec_add_def)
qed

lemma measurement_update_no_fix_singular:
  assumes P: "is_mat 5 5 P" and R: "det2 R = 0"
  shows "measurement_update R False Zcol (x, P) = Inl LinAlgError"
proof -
  have "det2 (mat 2 2 (\<lambda>i j. R ! i ! j)) = 0" using R by (simp add: det2_def)
  then show ?thesis
    unfolding measurement_update_def
    by (simp add: Let_def innovation_covariance_no_fix [OF P] linalg_inv_eq)
qed

lemma filterstep_no_fix:
  assumes "length x = 5" and "length Zcol = 2" and "det2 R \<noteq> 0"
    and "time_update dt Q yawrate (x, P) = Inr (x1, JA, P1)"
  shows "filterstep dt Q R yawrate False Zcol (x, P) =
     Inr \<lparr>var_x = x1, var_P = P1, var_JH = mat 2 5 (\<lambda>_ _. 0),
          var_S = mat 2 2 (\<lambda>i j. R ! i ! j),
          var_K = mat 5 2 (\<lambda>_ _. 0), var_Z = Zcol,
          var_y = vec_sub Zcol [x1 ! 0, x1 ! 1]\<rparr>"
  using assms time_update_shape [OF assms(4)]
  by (simp add: filterstep_def measurement_update_no_fix)

subsection \<open>With a position fix\<close>

lemma measurement_jacobian_True:
  "measurement_jacobian True = mat 2 5 (\<lambda>a k. if a = k then 1 else 0)"
  by (simp add: measurement_jacobian_def mat_def eval_nat_numeral)

lemma innovation_covariance_fix:
  assumes P: "is_mat 5 5 P"
  shows "innovation_covariance (measurement_jacobian True) P R
       = mat 2 2 (\<lambda>a b. P ! a ! b + R ! a ! b)"
proof -
  let ?JH = "mat 2 5 (\<lambda>a k. if a = k then (1::real) else 0)"
  have JP: "mat_mul ?JH P = mat 2 5 (\<lambda>a j. P ! a ! j)"
    unfolding mat_mul_def using P
    by (auto simp: is_mat_nrows is_mat_ncols sum_list_upt sum_delta_left intro!: mat_cong)
  have T: "transpose_m ?JH = mat 5 2 (\<lambda>k a. if a = k then 1 else 0)"
    by (simp add: transpose_m_def cong: mat_cong)
  have "mat_mul (mat 2 5 (\<lambda>a j. P ! a ! j)) (mat 5 2 (\<lambda>k a. if a = k then 1 else 0))
      = mat 2 2 (\<lambda>a b. P ! a ! b)"
    unfolding mat_mul_def
    by (auto simp: sum_list_upt sum_delta_right intro!: mat_cong)
  then show ?thesis
    unfolding innovation_covariance_def measurement_jacobian_True JP T
    by (simp add: mat_add_def cong: mat_cong)
qed

lemma gain_fix:
  assumes P: "is_mat 5 5 P" and T: "is_mat 2 2 T"
  shows "kalman_gain P (measurement_jacobian True) T
       = mat 5 2 (\<lambda>i a. P ! i ! 0 * T ! 0 ! a + P ! i ! 1 * T ! 1 ! a)"
proof -
  let ?JH = "mat 2 5 (\<lambda>a k. if a = k then (1::real) else 0)"
  have Tr: "transpose_m ?JH = mat 5 2 (\<lambda>k a. if a = k then 1 else 0)"
    by (simp add: transpose_m_def cong: mat_cong)
  have PJ: "mat_mul P (mat 5 2 (\<lambda>k a. if a = k then 1 else 0)) = mat 5 2 (\<lambda>i a. P ! i ! a)"
    unfolding mat_mul_def using P
    by (auto simp: is_mat_nrows sum_list_upt sum_delta_right intro!: mat_cong)
  show ?thesis
    unfolding kalman_gain_def measurement_jacobian_True Tr PJ
    unfolding mat_mul_def using T
    by (auto simp: is_mat_nrows is_mat_ncols sum_list_upt sum_two intro!: mat_cong)
qed

lemma covariance_correction_fix:
  assumes P: "is_mat 5 5 P" and K: "is_mat 5 2 K"
  shows "correct_covariance K (measurement_jacobian True) P
       = mat 5 5 (\<lambda>i j. P ! i ! j - (K ! i ! 0 * P ! 0 ! j + K ! i ! 1 * P ! 1 ! j))"
proof -
  let ?JH = "mat 2 5 (\<lambda>a k. if a = k then (1::real) else 0)"
  have KJ: "mat_mul K ?JH = mat 5 5 (\<lambda>i k. if k < 2 then K ! i ! k else 0)"
    unfolding mat_mul_def using K
    by (auto simp: is_mat_nrows sum_list_upt sum_delta_right intro!: mat_cong)
  have IK: "mat_sub (eye 5) (mat 5 5 (\<lambda>i k. if k < 2 then K ! i ! k else 0))
      = mat 5 5 (\<lambda>i k. (if i = k then 1 else 0) - (if k < 2 then K ! i ! k else 0))"
    unfolding mat_sub_def eye_def by (simp cong: mat_cong)
  show ?thesis
    unfolding correct_covariance_def measurement_jacobian_True KJ IK
    unfolding mat_mul_def using P
    by (auto simp: is_mat_nrows is_mat_ncols sum_list_upt left_diff_distrib sum_subtractf
        sum_delta_left sum_first_two intro!: mat_cong)
qed

lemma measurement_update_fix:
  assumes P: "is_mat 5 5 P"
    and T: "linalg_inv (mat 2 2 (\<lambda>a b. P ! a ! b + R ! a ! b)) = Inr T"
  shows "measurement_update R True Zcol (x, P) =
     Inr \<lparr>var_x = vec_add x (mat_vec (mat 5 2 (\<lambda>i a. P ! i ! 0 * T ! 0 ! a + P ! i ! 1 * T ! 1 ! a))
                     (vec_sub Zcol [x ! 0, x ! 1])),
          var_P = mat 5 5 (\<lambda>i j. P ! i ! j
                    - ((P ! i ! 0 * T ! 0 ! 0 + P ! i ! 1 * T ! 1 ! 0) * P ! 0 ! j
                       + (P ! i ! 0 * T ! 0 ! 1 + P ! i ! 1 * T ! 1 ! 1) * P ! 1 ! j)),
          var_JH = measurement_jacobian True,
          var_S = mat 2 2 (\<lambda>a b. P ! a ! b + R ! a ! b),
          var_K = mat 5 2 (\<lambda>i a. P ! i ! 0 * T ! 0 ! a + P ! i ! 1 * T ! 1 ! a),
          var_Z = Zcol,
          var_y = vec_sub Zcol [x ! 0, x ! 1]\<rparr>"
proof -
  let ?K = "mat 5 2 (\<lambda>i a. P ! i ! 0 * T ! 0 ! a + P ! i ! 1 * T ! 1 ! a)"
  have K: "kalman_gain P (measurement_jacobian True) T = ?K"
    using P linalg_inv_shape [OF T] by (rule gain_fix)
  have C: "correct_covariance ?K (measurement_jacobian True) P =
      mat 5 5 (\<lambda>i j. P ! i ! j
                    - ((P ! i ! 0 * T ! 0 ! 0 + P ! i ! 1 * T ! 1 ! 0) * P ! 0 ! j
                       + (P ! i ! 0 * T ! 0 ! 1 + P ! i ! 1 * T ! 1 ! 1) * P ! 1 ! j))"
  proof -
    have "correct_covariance ?K (measurement_jacobian True) P =
        mat 5 5 (\<lambda>i j. P ! i ! j - (?K ! i ! 0 * P ! 0 ! j + ?K ! i ! 1 * P ! 1 ! j))"
      by (rule covariance_correction_fix [OF P]) simp
    also have "\<dots> = mat 5 5 (\<lambda>i j. P ! i ! j
                    - ((P ! i ! 0 * T ! 0 ! 0 + P ! i ! 1 * T ! 1 ! 0) * P ! 0 ! j
                       + (P ! i ! 0 * T ! 0 ! 1 + P ! i ! 1 * T ! 1 ! 1) * P ! 1 ! j))"
      by (rule mat_cong [OF refl refl]) simp
    finally show ?thesis .
  qed
  show ?thesis
    unfolding measurement_update_def
    by (simp only: Let_def fst_conv snd_conv innovation_covariance_fix [OF P] T K C sum.case)
qed

lemma innovation_det_pos:
  assumes P: "psd 5 P" and R: "pd 2 R"
  shows "0 < det2 (mat 2 2 (\<lambda>a b. P ! a ! b + R ! a ! b))"
proof -
  have Ps: "P ! Suc 0 ! 0 = P ! 0 ! Suc 0"
    using P symmetric_mD [of 5 P 1 0] by (simp add: psd_def)
  have Rs: "R ! Suc 0 ! 0 = R ! 0 ! Suc 0"
    using R symmetric_mD [of 2 R 1 0] by (simp add: pd_def)
  have pos: "0 < (P ! 0 ! 0 + R ! 0 ! 0) * a\<^sup>2 + 2 * (P ! 0 ! 1 + R ! 0 ! 1) * a * b
                + (P ! 1 ! 1 + R ! 1 ! 1) * b\<^sup>2" if "a \<noteq> 0 \<or> b \<noteq> 0" for a b
  proof -
    have "0 \<le> quad_form P [a, b, 0, 0, 0]" using P by (simp add: psd_def)
    moreover have "0 < quad_form R [a, b]"
      using R that by (auto simp: pd_def eval_nat_numeral)
    ultimately show ?thesis
      unfolding quad_form_block quad_form_two by (simp add: Ps Rs algebra_simps)
  qed
  have "0 < (P ! 0 ! 0 + R ! 0 ! 0) * (P ! 1 ! 1 + R ! 1 ! 1)
            - (P ! 0 ! 1 + R ! 0 ! 1) * (P ! 0 ! 1 + R ! 0 ! 1)"
    by (rule det_pos_2d) (rule pos)
  then show ?thesis by (simp add: det2_def Ps Rs)
qed

lemma correction_psd:
  assumes P: "psd 5 P" and R: "pd 2 R"
    and T: "linalg_inv (mat 2 2 (\<lambda>a b. P ! a ! b + R ! a ! b)) = Inr T"
  shows "psd 5 (mat 5 5 (\<lambda>i j. P ! i ! j
                    - ((P ! i ! 0 * T ! 0 ! 0 + P ! i ! 1 * T ! 1 ! 0) * P ! 0 ! j
                       + (P ! i ! 0 * T ! 0 ! 1 + P ! i ! 1 * T ! 1 ! 1) * P ! 1 ! j)))"
    (is "psd 5 ?P'")
proof -
  have Ps: "\<And>i j. i < 5 \<Longrightarrow> j < 5 \<Longrightarrow> P ! i ! j = P ! j ! i"
    using P by (auto simp: psd_def dest: symmetric_mD)
  have Rs: "R ! 1 ! 0 = R ! 0 ! 1"
    using R symmetric_mD [of 2 R 1 0] by (simp add: pd_def)
  define p00 p01 p11 where "p00 = P ! 0 ! 0" and "p01 = P ! 0 ! 1" and "p11 = P ! 1 ! 1"
  define r00 r01 r11 where "r00 = R ! 0 ! 0" and "r01 = R ! 0 ! 1" and "r11 = R ! 1 ! 1"
  define d where "d = (p00 + r00) * (p11 + r11) - (p01 + r01) * (p01 + r01)"
  have p10: "P ! 1 ! 0 = p01" using Ps [of 1 0] by (simp add: p01_def)
  have dS: "det2 (mat 2 2 (\<lambda>a b. P ! a ! b + R ! a ! b)) = d"
    by (simp add: det2_def d_def p00_def p01_def p11_def r00_def r01_def r11_def p10 [simplified] Rs [simplified])
  have dpos: "0 < d" using innovation_det_pos [OF P R] by (simp only: dS)
  have T00: "T ! 0 ! 0 = (p11 + r11) / d" and T01: "T ! 0 ! 1 = - (p01 + r01) / d"
    and T10: "T ! 1 ! 0 = - (p01 + r01) / d" and T11: "T ! 1 ! 1 = (p00 + r00) / d"
    using T dpos unfolding linalg_inv_eq dS
    by (auto simp: p00_def p01_def p11_def r00_def r01_def r11_def p10 [simplified] Rs [simplified])
  have Ts: "T ! Suc 0 ! 0 = T ! 0 ! Suc 0" using T01 T10 by simp
  have sym: "?P' ! i ! j = ?P' ! j ! i" if "i < 5" "j < 5" for i j
    using that Ps [of i j] Ps [of i 0] Ps [of i 1] Ps [of j 0] Ps [of j 1]
    by (simp add: Ts algebra_simps)
  have q: "0 \<le> quad_form ?P' v" if v: "length v = 5" for v
  proof -
    define w where "w = (\<lambda>a. \<Sum>j<5. P ! a ! j * v ! j)"
    define q where "q = quad_form P v"
    have H1: "0 \<le> q - 2 * (u0 * w 0 + u1 * w 1) + (p00 * u0\<^sup>2 + 2 * p01 * u0 * u1 + p11 * u1\<^sup>2)"
      for u0 u1
    proof -
      let ?u = "[u0, u1, 0, 0, 0]"
      have len: "length ?u = 5" by simp
      have "quad_form P (vec_sub v ?u) = (\<Sum>i<5. \<Sum>j<5. (v ! i - ?u ! i) * P ! i ! j * (v ! j - ?u ! j))"
        unfolding quad_form_sum by (simp add: vec_sub_def v)
      also have "\<dots> = (\<Sum>i<5. \<Sum>j<5. v ! i * P ! i ! j * v ! j)
           - 2 * (\<Sum>i<5. ?u ! i * (\<Sum>j<5. P ! i ! j * v ! j))
           + (\<Sum>i<5. \<Sum>j<5. ?u ! i * P ! i ! j * ?u ! j)"
        by (rule quad_shift) (rule Ps)
      also have "(\<Sum>i<5. \<Sum>j<5. v ! i * P ! i ! j * v ! j) = q"
        by (simp add: q_def quad_form_sum v)
      also have "(\<Sum>i<5. ?u ! i * (\<Sum>j<5. P ! i ! j * v ! j)) = u0 * w 0 + u1 * w 1"
        unfolding w_def by (subst sum_five) simp
      also have "(\<Sum>i<5. \<Sum>j<5. ?u ! i * P ! i ! j * ?u ! j) = quad_form P ?u"
        by (simp only: quad_form_sum len)
      also have "quad_form P ?u = p00 * u0\<^sup>2 + 2 * p01 * u0 * u1 + p11 * u1\<^sup>2"
        unfolding quad_form_block by (simp add: p00_def p01_def p11_def p10 [simplified])
      finally have "quad_form P (vec_sub v ?u) =
          q - 2 * (u0 * w 0 + u1 * w 1) + (p00 * u0\<^sup>2 + 2 * p01 * u0 * u1 + p11 * u1\<^sup>2)" .
      moreover have "0 \<le> quad_form P (vec_sub v ?u)"
        using P by (simp add: psd_def length_vec_sub v)
      ultimately show ?thesis by simp
    qed
    have H2: "0 \<le> r00 * u0\<^sup>2 + 2 * r01 * u0 * u1 + r11 * u1\<^sup>2" for u0 u1
    proof -
      have "0 \<le> quad_form R [u0, u1]" by (rule pd_quad_nonneg [OF R]) simp
      then show ?thesis
        unfolding quad_form_two by (simp add: r00_def r01_def r11_def Rs [simplified])
    qed
    have "quad_form ?P' v =
        (\<Sum>i<5. \<Sum>j<5. v ! i * (P ! i ! j
            - ((P ! i ! 0 * T ! 0 ! 0 + P ! i ! 1 * T ! 1 ! 0) * P ! 0 ! j
               + (P ! i ! 0 * T ! 0 ! 1 + P ! i ! 1 * T ! 1 ! 1) * P ! 1 ! j)) * v ! j)"
      unfolding quad_form_sum v by (intro sum.cong refl) simp
    also have "\<dots> = (\<Sum>i<5. \<Sum>j<5. v ! i * P ! i ! j * v ! j)
         - ((T ! 0 ! 0 * w 0 + T ! 1 ! 0 * w 1) * w 0 + (T ! 0 ! 1 * w 0 + T ! 1 ! 1 * w 1) * w 1)"
      unfolding w_def by (rule correction_quad) (use Ps in simp_all)
    also have "(\<Sum>i<5. \<Sum>j<5. v ! i * P ! i ! j * v ! j) = q"
      by (simp add: q_def quad_form_sum v)
    also have "(T ! 0 ! 0 * w 0 + T ! 1 ! 0 * w 1) * w 0 + (T ! 0 ! 1 * w 0 + T ! 1 ! 1 * w 1) * w 1
        = (((p11 + r11) * w 0 - (p01 + r01) * w 1) * w 0
           + ((p00 + r00) * w 1 - (p01 + r01) * w 0) * w 1) / d"
      unfolding T00 T01 T10 T11 using dpos by (simp add: field_simps)
    finally have "quad_form ?P' v = q - (((p11 + r11) * w 0 - (p01 + r01) * w 1) * w 0
           + ((p00 + r00) * w 1 - (p01 + r01) * w 0) * w 1) / d" .
    moreover have "0 \<le> q - (((p11 + r11) * w 0 - (p01 + r01) * w 1) * w 0
           + ((p00 + r00) * w 1 - (p01 + r01) * w 0) * w 1) / d"
      unfolding d_def
      by (rule complete_square_2d) (use dpos H1 H2 in \<open>simp_all add: d_def\<close>)
    ultimately show ?thesis by simp
  qed
  show ?thesis
    unfolding psd_def using sym q by (simp add: symmetric_mI)
qed

lemma measurement_update_psd:
  assumes P: "psd 5 P" and R: "pd 2 R"
  shows "\<exists>v. measurement_update R GPS Zcol (x, P) = Inr v \<and> psd 5 (var_P v)
           \<and> length (var_x v) = length x"
proof (cases GPS)
  case False
  have "det2 R \<noteq> 0" using pd_det_pos [OF R] by simp
  with P False measurement_update_no_fix_covariance [of P R Zcol x]
  show ?thesis by (auto simp: psd_def)
next
  case True
  have Pm: "is_mat 5 5 P" using P by (simp add: psd_def)
  let ?S = "mat 2 2 (\<lambda>a b. P ! a ! b + R ! a ! b)"
  have "det2 ?S \<noteq> 0" using innovation_det_pos [OF P R] by simp
  then obtain T where T: "linalg_inv ?S = Inr T"
    by (simp add: linalg_inv_eq)
  from True have G: "GPS = True" by simp
  show ?thesis
    unfolding G measurement_update_fix [OF Pm T]
    using correction_psd [OF P R T] by (simp add: vec_add_def)
qed

section \<open>The covariance along the loop\<close>

lemma filterstep_psd:
  assumes P: "psd 5 P" and Q: "psd 5 Q" and R: "pd 2 R"
  shows "case filterstep dt Q R yawrate GPS Zcol (x, P) of
           Inl e \<Rightarrow> e = NonFinite
         | Inr v \<Rightarrow> psd 5 (var_P v) \<and> length (var_x v) = length x"
proof (cases "time_update dt Q yawrate (x, P)")
  case (Inl e)
  then show ?thesis by (simp add: filterstep_def time_update_error)
next
  case (Inr r)
  obtain x1 JA P1 where r: "r = (x1, JA, P1)" by (cases r)
  have P1: "psd 5 P1" using time_update_psd [OF P Q] Inr r by simp
  have len: "length x1 = length x" using time_update_shape(1) Inr r by simp
  from measurement_update_psd [OF P1 R, of GPS Zcol x1] len show ?thesis
    by (auto simp: filterstep_def Inr r)
qed

lemma filter_loop_psd:
  assumes "psd 5 P" and Q: "psd 5 Q" and R: "pd 2 R"
  shows "case filter_loop dt Q R steps (x, P) of
           Inl e \<Rightarrow> e = NonFinite
         | Inr (x', P') \<Rightarrow> psd 5 P' \<and> length x' = length x"
  using assms(1)
proof (induction steps arbitrary: x P)
  case Nil
  then show ?case by simp
next
  case (Cons s steps)
  obtain yr g z where s: "s = (yr, g, z)" by (cases s)
  show ?case
  proof (cases "filterstep dt Q R yr g z (x, P)")
    case (Inl e)
    with filterstep_psd [OF Cons.prems Q R, where dt=dt and yawrate=yr and GPS=g and Zcol=z and x=x] show ?thesis
      by (simp add: s)
  next
    case (Inr v)
    with filterstep_psd [OF Cons.prems Q R, where dt=dt and yawrate=yr and GPS=g and Zcol=z and x=x]
    have v: "psd 5 (var_P v)" "length (var_x v) = length x" by simp_all
    from Cons.IH [OF v(1), of "var_x v"] v(2) show ?thesis
      by (auto simp: s Inr split: sum.splits)
  qed
qed

lemma filterstep_straight:
  assumes "\<bar>yawrate\<bar> < 0.0001" and "length x = 5"
  shows "filterstep dt Q R yawrate GPS Zcol (x, P) \<noteq> Inl NonFinite"
proof -
  from time_update_straight [OF assms, of dt Q P]
  obtain x1 JA P1 where "time_update dt Q yawrate (x, P) = Inr (x1, JA, P1)" by blast
  then show ?thesis
    by (auto simp: filterstep_def dest: measurement_update_error)
qed

lemma filter_loop_straight:
  assumes "psd 5 P" and Q: "psd 5 Q" and R: "pd 2 R" and "length x = 5"
    and "\<forall>s\<in>set steps. \<bar>fst s\<bar> < 0.0001"
  shows "\<exists>x' P'. filter_loop dt Q R steps (x, P) = Inr (x', P')"
  using assms(1,4,5)
proof (induction steps arbitrary: x P)
  case Nil
  then show ?case by simp
next
  case (Cons s steps)
  obtain yr g z where s: "s = (yr, g, z)" by (cases s)
  from Cons.prems(3) have yr: "\<bar>yr\<bar> < 0.0001" by (simp add: s)
  from filterstep_psd [OF Cons.prems(1) Q R, where dt=dt and yawrate=yr and GPS=g and Zcol=z and x=x]
    filterstep_straight [OF yr Cons.prems(2), of dt Q R g z P]
  obtain v where v: "filterstep dt Q R yr g z (x, P) = Inr v" "psd 5 (var_P v)"
    "length (var_x v) = length x"
    by (cases "filterstep dt Q R yr g z (x, P)") auto
  from Cons.IH [OF v(2), of "var_x v"] v(3) Cons.prems(2,3) show ?case
    by (simp add: s v(1))
qed

section \<open>The motion equations\<close>

text \<open>
  A state whose own yaw rate is 1 rad/s, on a pass whose logged sample is 0: the straight
  equations are applied and the yaw-rate component is overwritten, although the state's
  yaw rate is far above the threshold.
\<close>

theorem turning_by_state_counterexample:
  "\<bar>[0, 0, 0, 1, 1] ! 4\<bar> \<ge> (0.0001::real) \<and>
   project_state 0 (1/50) [0, 0, 0, 1, 1] = Inr [1/50, 0, 0, 1, 0.0000001] \<and>
   project_state 0 (1/50) [0, 0, 0, 1, 1] \<noteq>
     Inr [0 + (1 / 1) * (sin (1 * (1/50) + 0) - sin 0),
          0 + (1 / 1) * (- cos (1 * (1/50) + 0) + cos 0),
          wrap (0 + 1 * (1/50)), 1, 1]"
  by (simp add: project_state_def)

text \<open>
  C1, amended: when the logged yaw-rate sample of the pass has magnitude at least 1e-4 and
  the state's yaw rate is not zero, the projection yields exactly the arc equations for
  position, the heading \<open>((\<psi> + \<psi>' dt + \<pi>) mod 2\<pi>) - \<pi>\<close>, and the speed and yaw rate
  unchanged.
\<close>

theorem turning_equations:
  assumes "length x = 5" and "0.0001 \<le> \<bar>yawrate\<bar>" and "x ! 4 \<noteq> 0"
  shows "project_state yawrate dt x =
     Inr [x ! 0 + (x ! 3 / x ! 4) * (sin (x ! 4 * dt + x ! 2) - sin (x ! 2)),
          x ! 1 + (x ! 3 / x ! 4) * (- cos (x ! 4 * dt + x ! 2) + cos (x ! 2)),
          py_mod (x ! 2 + x ! 4 * dt + pi) (2 * pi) - pi,
          x ! 3,
          x ! 4]"
  using assms project_state_turning [of x yawrate dt] by (simp add: wrap_def)

theorem turning_equations_witness:
  "project_state 1 (1/50) [0, 0, 0, 1, 1] =
     Inr [0 + (1 / 1) * (sin (1 * (1/50) + 0) - sin 0),
          0 + (1 / 1) * (- cos (1 * (1/50) + 0) + cos 0),
          py_mod (0 + 1 * (1/50) + pi) (2 * pi) - pi,
          1,
          1]"
  using turning_equations [of "[0, 0, 0, 1, 1]" 1 "1/50"] by simp

text \<open>
  A state whose own yaw rate is 1e-5 rad/s, below the threshold, on a pass whose logged
  sample is 1: the result is not the straight-line one.
\<close>

theorem straight_by_state_counterexample:
  "\<bar>[0, 0, 0, 1, 0.00001] ! 4\<bar> < (0.0001::real) \<and>
   project_state 1 (1/50) [0, 0, 0, 1, 0.00001] \<noteq>
     Inr [0 + 1 * (1/50) * cos 0, 0 + 1 * (1/50) * sin 0, 0, 1, 0.0000001]"
  by (simp add: project_state_def)

text \<open>
  C4, amended: when the logged yaw-rate sample of the pass has magnitude below 1e-4, the
  projection advances the position linearly along the heading, leaves heading and speed
  unchanged, and sets the yaw-rate component to exactly 1e-7 whatever it was.
\<close>

theorem straight_equations:
  assumes "length x = 5" and "\<bar>yawrate\<bar> < 0.0001"
  shows "project_state yawrate dt x =
     Inr [x ! 0 + x ! 3 * dt * cos (x ! 2),
          x ! 1 + x ! 3 * dt * sin (x ! 2),
          x ! 2,
          x ! 3,
          0.0000001]"
  using assms by (rule project_state_straight)

theorem straight_equations_witness:
  "project_state 0 (1/50) [0, 0, 0, 1, 1] = Inr [1/50, 0, 0, 1, 0.0000001]"
  using straight_equations [of "[0, 0, 0, 1, 1]" 0 "1/50"] by simp

text \<open>
  The same state and step interval with two different logged samples give two different
  projections, and the one for sample 0 is the straight-line one although the state's own
  yaw rate is 0.5 rad/s.
\<close>

theorem selector_counterexample:
  "project_state 0 (1/50) [0, 0, 0, 1, 1/2] = Inr [1/50, 0, 0, 1, 0.0000001] \<and>
   project_state 0 (1/50) [0, 0, 0, 1, 1/2] \<noteq> project_state (1/2) (1/50) [0, 0, 0, 1, 1/2]"
  by (simp add: project_state_def)

text \<open>
  C6, amended: the regime is selected by comparing the magnitude of the logged yaw-rate
  sample of the pass against 1e-4. The time update is a function of the state, the
  covariance, the step interval, the process noise and that sample, and depends on the
  sample only through the comparison; in the straight regime the state's own yaw-rate
  component has no influence on the result at all.
\<close>

theorem regime_selector:
  assumes "length x = 5"
  shows "((\<bar>yr1\<bar> < 0.0001) = (\<bar>yr2\<bar> < 0.0001) \<longrightarrow>
            time_update dt Q yr1 (x, P) = time_update dt Q yr2 (x, P))
       \<and> (\<bar>yr\<bar> < 0.0001 \<longrightarrow>
            time_update dt Q yr (x[4 := w], P) = time_update dt Q yr (x, P))"
proof -
  have "project_state yr1 dt x = project_state yr2 dt x"
    if "(\<bar>yr1\<bar> < 0.0001) = (\<bar>yr2\<bar> < 0.0001)"
    using that by (simp add: project_state_def)
  moreover have "project_state yr dt (x[4 := w]) = project_state yr dt x" if "\<bar>yr\<bar> < 0.0001"
    using that assms project_state_straight [of x yr dt]
      project_state_straight [of "x[4 := w]" yr dt]
    by simp
  ultimately show ?thesis by (auto simp: time_update_def split: sum.splits)
qed

theorem regime_selector_witness:
  "time_update (1/50) Q_cfg 0 ([0, 0, 0, 1, 1], P_cfg) =
     time_update (1/50) Q_cfg (1/100000) ([0, 0, 0, 1, 1], P_cfg)
   \<and> time_update (1/50) Q_cfg 0 ([0, 0, 0, 1, 7], P_cfg) =
     time_update (1/50) Q_cfg 0 ([0, 0, 0, 1, 1], P_cfg)"
  using regime_selector [of "[0, 0, 0, 1, 1]" 0 "1/100000" "1/50" Q_cfg P_cfg 0 7] by simp

section \<open>The heading after a projection\<close>

text \<open>
  A straight pass from heading 4 rad leaves the heading at 4, above \<open>\<pi>\<close>; and the
  normalisation sends \<open>\<pi>\<close> to \<open>-\<pi>\<close>, which is outside the interval open at \<open>-\<pi>\<close>.
\<close>

theorem heading_range_counterexample:
  "project_state 0 (1/50) [0, 0, 4, 1, 0] =
     Inr [0 + 1 * (1/50) * cos 4, 0 + 1 * (1/50) * sin 4, 4, 1, 0.0000001]
   \<and> \<not> (4 \<le> pi) \<and> wrap pi = - pi \<and> \<not> (- pi < wrap pi)"
  using pi_less_4 by (simp add: project_state_def wrap_pi)

text \<open>
  C5, amended: after a projection in the turning regime the heading lies in the interval
  closed at \<open>-\<pi>\<close> and open at \<open>\<pi>\<close>; the normalisation maps every real into that interval
  and sends every odd multiple of \<open>\<pi>\<close> to \<open>-\<pi>\<close>. A projection in the straight regime
  leaves the heading as it was, without normalising it.
\<close>

theorem heading_range:
  assumes "length x = 5"
  shows "(0.0001 \<le> \<bar>yawrate\<bar> \<longrightarrow> x ! 4 \<noteq> 0 \<longrightarrow>
            (\<exists>x'. project_state yawrate dt x = Inr x' \<and> - pi \<le> x' ! 2 \<and> x' ! 2 < pi))
       \<and> (\<bar>yawrate\<bar> < 0.0001 \<longrightarrow>
            (\<exists>x'. project_state yawrate dt x = Inr x' \<and> x' ! 2 = x ! 2))
       \<and> - pi \<le> wrap a \<and> wrap a < pi
       \<and> wrap ((2 * of_int k + 1) * pi) = - pi"
  using assms project_state_turning [of x yawrate dt] project_state_straight [of x yawrate dt]
    wrap_range [of "x ! 2 + x ! 4 * dt"] wrap_range [of a] wrap_odd_multiple [of k]
  by auto

theorem heading_range_witness:
  "(\<exists>x'. project_state 2 1 [0, 0, 3, 1, 2] = Inr x' \<and> - pi \<le> x' ! 2 \<and> x' ! 2 < pi)
   \<and> - pi \<le> wrap 5 \<and> wrap 5 < pi \<and> wrap (3 * pi) = - pi"
  using heading_range [of "[0, 0, 3, 1, 2]" 2 1 5 1] by simp

section \<open>The state-transition Jacobian\<close>

text \<open>
  A turning pass from heading -0.02 rad with yaw rate 1 rad/s: the projection moves the
  heading to 0, and the Jacobian that the time update returns has \<open>cos (1/50) - 1\<close> in
  row 1, column 3, where the partial taken at the state the pass received is
  \<open>1 - cos (1/50)\<close>.
\<close>

theorem jacobian_point_counterexample:
  "time_update (1/50) Q_cfg 1 ([0, 0, - (1/50), 1, 1], P_cfg) =
     Inr ([sin (1/50), cos (1/50) - 1, 0, 1, 1],
          [[1, 0, cos (1/50) - 1, sin (1/50), cos (1/50) / 50 - sin (1/50)],
           [0, 1, sin (1/50), 1 - cos (1/50), sin (1/50) / 50 - (1 - cos (1/50))],
           [0, 0, 1, 0, 1/50],
           [0, 0, 0, 1, 0],
           [0, 0, 0, 0, 1]],
          project_covariance
          [[1, 0, cos (1/50) - 1, sin (1/50), cos (1/50) / 50 - sin (1/50)],
           [0, 1, sin (1/50), 1 - cos (1/50), sin (1/50) / 50 - (1 - cos (1/50))],
           [0, 0, 1, 0, 1/50],
           [0, 0, 0, 1, 0],
           [0, 0, 0, 0, 1]] P_cfg Q_cfg)
   \<and> jacobian_A (1/50) [0, 0, - (1/50), 1, 1] =
     Inr [[1, 0, 1 - cos (1/50), sin (1/50), 1 / 50 - sin (1/50)],
          [0, 1, sin (1/50), cos (1/50) - 1, 1 - cos (1/50)],
          [0, 0, 1, 0, 1/50],
          [0, 0, 0, 1, 0],
          [0, 0, 0, 0, 1]]
   \<and> cos (1/50) - 1 \<noteq> 1 - cos (1/50 :: real)"
  using cos_fiftieth by (simp add: time_update_turning_ex jacobian_A_before_ex)

text \<open>
  C2, amended: on every pass the Jacobian used to propagate the covariance has the layout
  \<open>[[1,0,a13,a14,a15],[0,1,a23,a24,a25],[0,0,1,0,dt],[0,0,0,1,0],[0,0,0,0,1]]\<close> with the
  listed analytic partials, and those partials are evaluated at the predicted state, the
  state vector as the motion equations of the branch taken left it: heading, speed and the
  yaw rate 1e-7 in the straight branch; the new normalised heading, speed and yaw rate in
  the turning branch.
\<close>

theorem jacobian_at_predicted_state:
  assumes "length x = 5" and "time_update dt Q yawrate (x, P) = Inr (x1, JA, P1)"
  shows "project_state yawrate dt x = Inr x1
     \<and> JA = [[1, 0, (x1 ! 3 / x1 ! 4) * (cos (x1 ! 4 * dt + x1 ! 2) - cos (x1 ! 2)),
                    (1 / x1 ! 4) * (sin (x1 ! 4 * dt + x1 ! 2) - sin (x1 ! 2)),
                    (dt * x1 ! 3 / x1 ! 4) * cos (x1 ! 4 * dt + x1 ! 2)
                      - (x1 ! 3 / (x1 ! 4)\<^sup>2) * (sin (x1 ! 4 * dt + x1 ! 2) - sin (x1 ! 2))],
              [0, 1, (x1 ! 3 / x1 ! 4) * (sin (x1 ! 4 * dt + x1 ! 2) - sin (x1 ! 2)),
                    (1 / x1 ! 4) * (- cos (x1 ! 4 * dt + x1 ! 2) + cos (x1 ! 2)),
                    (dt * x1 ! 3 / x1 ! 4) * sin (x1 ! 4 * dt + x1 ! 2)
                      - (x1 ! 3 / (x1 ! 4)\<^sup>2) * (- cos (x1 ! 4 * dt + x1 ! 2) + cos (x1 ! 2))],
              [0, 0, 1, 0, dt],
              [0, 0, 0, 1, 0],
              [0, 0, 0, 0, 1]]
     \<and> x1 ! 4 \<noteq> 0
     \<and> (\<bar>yawrate\<bar> < 0.0001 \<longrightarrow> x1 ! 2 = x ! 2 \<and> x1 ! 3 = x ! 3 \<and> x1 ! 4 = 0.0000001)
     \<and> (0.0001 \<le> \<bar>yawrate\<bar> \<longrightarrow>
           x1 ! 2 = wrap (x ! 2 + x ! 4 * dt) \<and> x1 ! 3 = x ! 3 \<and> x1 ! 4 = x ! 4)
     \<and> P1 = project_covariance JA P Q"
proof -
  from assms(2) have ps: "project_state yawrate dt x = Inr x1"
    and ja: "jacobian_A dt x1 = Inr JA" and P1: "P1 = project_covariance JA P Q"
    by (auto simp: time_update_def split: sum.splits)
  from ja have nz: "x1 ! 4 \<noteq> 0"
    and JA: "JA = [[1, 0, (x1 ! 3 / x1 ! 4) * (cos (x1 ! 4 * dt + x1 ! 2) - cos (x1 ! 2)),
                    (1 / x1 ! 4) * (sin (x1 ! 4 * dt + x1 ! 2) - sin (x1 ! 2)),
                    (dt * x1 ! 3 / x1 ! 4) * cos (x1 ! 4 * dt + x1 ! 2)
                      - (x1 ! 3 / (x1 ! 4)\<^sup>2) * (sin (x1 ! 4 * dt + x1 ! 2) - sin (x1 ! 2))],
              [0, 1, (x1 ! 3 / x1 ! 4) * (sin (x1 ! 4 * dt + x1 ! 2) - sin (x1 ! 2)),
                    (1 / x1 ! 4) * (- cos (x1 ! 4 * dt + x1 ! 2) + cos (x1 ! 2)),
                    (dt * x1 ! 3 / x1 ! 4) * sin (x1 ! 4 * dt + x1 ! 2)
                      - (x1 ! 3 / (x1 ! 4)\<^sup>2) * (- cos (x1 ! 4 * dt + x1 ! 2) + cos (x1 ! 2))],
              [0, 0, 1, 0, dt],
              [0, 0, 0, 1, 0],
              [0, 0, 0, 0, 1]]"
    by (auto simp: jacobian_A_def Let_def split: if_splits)
  have s: "x1 ! 2 = x ! 2 \<and> x1 ! 3 = x ! 3 \<and> x1 ! 4 = 0.0000001" if "\<bar>yawrate\<bar> < 0.0001"
    using ps project_state_straight [OF assms(1) that, of dt] by auto
  have t: "x1 ! 2 = wrap (x ! 2 + x ! 4 * dt) \<and> x1 ! 3 = x ! 3 \<and> x1 ! 4 = x ! 4"
    if "0.0001 \<le> \<bar>yawrate\<bar>"
  proof -
    from that have n: "\<not> \<bar>yawrate\<bar> < 0.0001" by simp
    with ps have "x ! 4 \<noteq> 0" by (auto simp: project_state_def)
    from project_state_turning [OF assms(1) n this, of dt] ps show ?thesis by auto
  qed
  from ps JA nz s t P1 show ?thesis by blast
qed

theorem jacobian_at_predicted_state_witness:
  "project_state 1 (1/50) [0, 0, - (1/50), 1, 1] = Inr [sin (1/50), cos (1/50) - 1, 0, 1, 1]
   \<and> [sin (1/50), cos (1/50) - 1, 0, 1, 1] ! 2 = wrap (- (1 / 50) + 1 * (1 / 50))"
  using jacobian_at_predicted_state [OF _ time_update_turning_ex] by simp

section \<open>Passes without a position fix\<close>

text \<open>
  C3: on a pass without a position fix, the state and the covariance at the end of the
  pass are exactly the projected state and the projected covariance. (The pass completes
  whenever the measurement noise matrix is non-singular, as the configured one is.)
\<close>

theorem no_fix_keeps_prediction:
  assumes "length x = 5" and "length Zcol = 2" and "det2 R \<noteq> 0"
    and "time_update dt Q yawrate (x, P) = Inr (x1, JA, P1)"
  shows "\<exists>v. filterstep dt Q R yawrate False Zcol (x, P) = Inr v
           \<and> var_x v = x1 \<and> var_P v = P1"
  using filterstep_no_fix [OF assms] by simp

theorem no_fix_keeps_prediction_witness:
  "\<exists>v. filterstep (1/50) Q_cfg R_cfg 0 False [1, 0] ([0, 0, 0, 0, 0], P_cfg) = Inr v
     \<and> var_x v = [0, 0, 0, 0, 0.0000001]
     \<and> var_P v = project_covariance
          [[1, 0, 0, 10000000 * sin (1 / 500000000), 0],
           [0, 1, 0, 10000000 * (1 - cos (1 / 500000000)), 0],
           [0, 0, 1, 0, 1/50],
           [0, 0, 0, 1, 0],
           [0, 0, 0, 0, 1]] P_cfg Q_cfg"
  using no_fix_keeps_prediction [OF _ _ _ time_update_at_rest, of "[1, 0]" R_cfg]
  by (simp add: det2_R_cfg)

text \<open>
  A pass without a fix, as the first pass of a run is: the vehicle starts at the origin
  heading east at 1 m/s, and the logged measurement column is still the starting position
  \<open>(0, 0)\<close>. The projection has moved the state to \<open>(0.02, 0)\<close>, so the residual is
  \<open>(-0.02, 0)\<close>, not zero.
\<close>

theorem residual_counterexample:
  "filterstep (1/50) Q_cfg R_cfg 0 False [0, 0] ([0, 0, 0, 1, 0], P_cfg) =
     Inr \<lparr>var_x = [1/50, 0, 0, 1, 0.0000001],
          var_P = project_covariance
          [[1, 0, 10000000 * (cos (1 / 500000000) - 1), 10000000 * sin (1 / 500000000),
               200000 * cos (1 / 500000000) - 100000000000000 * sin (1 / 500000000)],
           [0, 1, 10000000 * sin (1 / 500000000), 10000000 * (1 - cos (1 / 500000000)),
               200000 * sin (1 / 500000000) - 100000000000000 * (1 - cos (1 / 500000000))],
           [0, 0, 1, 0, 1/50],
           [0, 0, 0, 1, 0],
           [0, 0, 0, 0, 1]] P_cfg Q_cfg,
          var_JH = [[0, 0, 0, 0, 0], [0, 0, 0, 0, 0]],
          var_S = [[36, 0], [0, 36]],
          var_K = [[0, 0], [0, 0], [0, 0], [0, 0], [0, 0]],
          var_Z = [0, 0],
          var_y = [- (1/50), 0]\<rparr>"
proof -
  have R: "mat 2 2 (\<lambda>i j. R_cfg ! i ! j) = [[36, 0], [0, 36]]"
    by (simp add: R_cfg_def mat_def eval_nat_numeral)
  have y: "vec_sub [0, 0] [1/50, 0] = [- (1/50), 0]"
    by (simp add: vec_sub_def eval_nat_numeral)
  show ?thesis
    by (subst filterstep_no_fix [OF _ _ _ time_update_moving])
      (simp_all add: det2_R_cfg zero_5x2 zero_2x5 R y)
qed

text \<open>
  C7, amended: when no position measurement is present at a pass, \<open>z\<close> is still the logged
  measurement column of that pass, and the residual is \<open>z - h(x)\<close> for that column; it is
  the zero vector only when the column equals the predicted position. The state is left
  unchanged all the same.
\<close>

theorem no_fix_residual:
  assumes "length x = 5" and "length Zcol = 2" and "det2 R \<noteq> 0"
    and "time_update dt Q yawrate (x, P) = Inr (x1, JA, P1)"
  shows "\<exists>v. filterstep dt Q R yawrate False Zcol (x, P) = Inr v \<and> var_Z v = Zcol
           \<and> var_y v = [Zcol ! 0 - x1 ! 0, Zcol ! 1 - x1 ! 1]
           \<and> (var_y v = [0, 0] \<longleftrightarrow> Zcol = [x1 ! 0, x1 ! 1])
           \<and> var_x v = x1"
proof -
  from assms(2) obtain z0 z1 where Z: "Zcol = [z0, z1]"
    by (auto simp: eval_nat_numeral length_Suc_conv)
  show ?thesis
    using filterstep_no_fix [OF assms] by (auto simp: Z vec_sub_def eval_nat_numeral)
qed

theorem no_fix_residual_witness:
  "\<exists>v. filterstep (1/50) Q_cfg R_cfg 0 False [0, 0] ([0, 0, 0, 1, 0], P_cfg) = Inr v
     \<and> var_Z v = [0, 0] \<and> var_y v = [- (1/50), 0] \<and> var_x v = [1/50, 0, 0, 1, 0.0000001]"
  using no_fix_residual [OF _ _ _ time_update_moving, of "[0, 0]" R_cfg]
  by (auto simp: det2_R_cfg)

text \<open>
  C10: on a pass without a position fix the measurement Jacobian is the zero 2 x 5 matrix
  and the gain is exactly the zero 5 x 2 matrix, so the correction adds exactly zero to the
  state whatever the residual, and \<open>I - K JH\<close> is exactly the identity.
\<close>

theorem no_fix_zero_gain:
  assumes "is_mat 5 5 P" and "length x = 5" and "length Zcol = 2" and "det2 R \<noteq> 0"
  shows "\<exists>v. measurement_update R False Zcol (x, P) = Inr v
           \<and> var_JH v = [[0, 0, 0, 0, 0], [0, 0, 0, 0, 0]]
           \<and> var_K v = [[0, 0], [0, 0], [0, 0], [0, 0], [0, 0]]
           \<and> (\<forall>y. length y = 2 \<longrightarrow> mat_vec (var_K v) y = [0, 0, 0, 0, 0])
           \<and> (\<forall>y. length y = 2 \<longrightarrow> vec_add x (mat_vec (var_K v) y) = x)
           \<and> mat_sub (eye 5) (mat_mul (var_K v) (var_JH v)) = eye 5"
proof -
  have Ky: "mat_vec (mat 5 2 (\<lambda>_ _. 0)) y = [0, 0, 0, 0, 0]" if "length y = 2" for y
    using that by (subst mat_vec_zero) (simp_all add: eval_nat_numeral)
  have xn: "vec_add x (mat_vec (mat 5 2 (\<lambda>_ _. 0)) y) = x" if "length y = 2" for y
    using assms(2) that by (subst mat_vec_zero) (simp_all add: vec_add_zero)
  show ?thesis
    using measurement_update_no_fix [OF assms] identity_minus_zero_gain Ky xn
    by (simp add: zero_5x2 [symmetric] zero_2x5 [symmetric])
qed

theorem no_fix_zero_gain_witness:
  "\<exists>v. measurement_update R_cfg False [1, 0] ([0, 0, 0, 0, 0.0000001], P_cfg) = Inr v
           \<and> var_K v = [[0, 0], [0, 0], [0, 0], [0, 0], [0, 0]]
           \<and> mat_sub (eye 5) (mat_mul (var_K v) (var_JH v)) = eye 5"
  using no_fix_zero_gain [OF is_mat_P_cfg, of "[0, 0, 0, 0, 0.0000001]" "[1, 0]" R_cfg]
  by (auto simp: det2_R_cfg)

section \<open>The covariance invariant\<close>

text \<open>
  Positive semidefiniteness is meant in the full sense, \<open>v\<^sup>T P v \<ge> 0\<close> for every \<open>v\<close>.
  Symmetry with a non-negative diagonal alone is not preserved: a covariance that is
  symmetric with a zero diagonal, with \<open>-1\<close> between heading and yaw rate, has after one
  pass from rest (no fix, so the covariance at the end of the pass is the projected one)
  the heading variance \<open>-2 dt + Q[2][2] = -0.04 + 0.000004\<close>, which is negative.
\<close>

lemma indefinite_covariance_example:
  "symmetric_m 5 [[0, 0, 0, 0, 0], [0, 0, 0, 0, 0], [0, 0, 0, 0, - 1], [0, 0, 0, 0, 0], [0, 0, - 1, 0, 0]]
   \<and> diag_nonneg 5 [[0, 0, 0, 0, 0], [0, 0, 0, 0, 0], [0, 0, 0, 0, - 1], [0, 0, 0, 0, 0], [0, 0, - 1, 0, 0]]
   \<and> map_sum id var_P (filterstep (1/50) Q_cfg R_cfg 0 False [0, 0] ([0, 0, 0, 0, 0],
        [[0, 0, 0, 0, 0], [0, 0, 0, 0, 0], [0, 0, 0, 0, - 1], [0, 0, 0, 0, 0], [0, 0, - 1, 0, 0]]))
     = Inr (project_covariance
          [[1, 0, 0, 10000000 * sin (1 / 500000000), 0],
           [0, 1, 0, 10000000 * (1 - cos (1 / 500000000)), 0],
           [0, 0, 1, 0, 1/50],
           [0, 0, 0, 1, 0],
           [0, 0, 0, 0, 1]]
          [[0, 0, 0, 0, 0], [0, 0, 0, 0, 0], [0, 0, 0, 0, - 1], [0, 0, 0, 0, 0], [0, 0, - 1, 0, 0]]
          Q_cfg)
   \<and> project_covariance
          [[1, 0, 0, 10000000 * sin (1 / 500000000), 0],
           [0, 1, 0, 10000000 * (1 - cos (1 / 500000000)), 0],
           [0, 0, 1, 0, 1/50],
           [0, 0, 0, 1, 0],
           [0, 0, 0, 0, 1]]
          [[0, 0, 0, 0, 0], [0, 0, 0, 0, 0], [0, 0, 0, 0, - 1], [0, 0, 0, 0, 0], [0, 0, - 1, 0, 0]]
          Q_cfg ! 2 ! 2 = - (1 / 25) + 1 / 250000"
proof -
  let ?P = "[[0, 0, 0, 0, 0], [0, 0, 0, 0, 0], [0, 0, 0, 0, - 1], [0, 0, 0, 0, 0],
    [0, 0, - 1, 0, 0 :: real]]"
  have "map_sum id var_P (filterstep (1/50) Q_cfg R_cfg 0 False [0, 0] ([0, 0, 0, 0, 0], ?P))
     = Inr (project_covariance
          [[1, 0, 0, 10000000 * sin (1 / 500000000), 0],
           [0, 1, 0, 10000000 * (1 - cos (1 / 500000000)), 0],
           [0, 0, 1, 0, 1/50],
           [0, 0, 0, 1, 0],
           [0, 0, 0, 0, 1]] ?P Q_cfg)"
    by (subst filterstep_no_fix [OF _ _ _ time_update_from_rest]) (simp_all add: det2_R_cfg)
  with diag_nonneg_zero_diag bad_entry show ?thesis by blast
qed

text \<open>
  C8: for every initial covariance that is symmetric positive semidefinite, with a
  symmetric positive semidefinite process noise and a symmetric positive definite
  measurement noise (as the configured ones are), the covariance after any number of passes
  of the loop (each a projection \<open>JA P JA\<^sup>T + Q\<close> followed by a correction \<open>(I - K JH) P\<close>) is
  again symmetric positive semidefinite, hence symmetric with a non-negative diagonal, in
  exact arithmetic. The only way such a run can end early is a division by a zero yaw
  rate, never the inversion.
\<close>

theorem covariance_stays_psd:
  assumes "psd 5 P" and "psd 5 Q" and "pd 2 R"
  shows "case filter_loop dt Q R steps (x, P) of
           Inl e \<Rightarrow> e = NonFinite
         | Inr (x', P') \<Rightarrow> psd 5 P' \<and> symmetric_m 5 P' \<and> diag_nonneg 5 P'"
  using filter_loop_psd [OF assms, where dt=dt and steps=steps and x=x]
  by (auto split: sum.splits dest: psd_symmetric psd_diag_nonneg)

theorem covariance_stays_psd_witness:
  "\<exists>x' P'. filter_loop (1/50) Q_cfg R_cfg [(0, True, [1, 0]), (0, False, [1, 0])]
               ([0, 0, 0, 0, 0], P_cfg) = Inr (x', P')
           \<and> psd 5 P' \<and> symmetric_m 5 P' \<and> diag_nonneg 5 P'"
  using covariance_stays_psd [OF psd_P_cfg psd_Q_cfg pd_R_cfg,
      where dt="1/50" and steps="[(0, True, [1, 0]), (0, False, [1, 0])]"
        and x="[0, 0, 0, 0, 0]"]
    filter_loop_straight [OF psd_P_cfg psd_Q_cfg pd_R_cfg,
      where dt="1/50" and steps="[(0, True, [1, 0]), (0, False, [1, 0])]"
        and x="[0, 0, 0, 0, 0]"]
  by auto

section \<open>The inversion of the innovation covariance\<close>

subsection \<open>The first pass of a run\<close>

lemma length_cumsum_from: "length (cumsum_from acc a) = length a"
  by (induction a arbitrary: acc) simp_all

lemma length_mx: "length (mx latitude longitude altitude) = length altitude"
  by (simp add: mx_def np_cumsum_def length_cumsum_from dx_def)

text \<open>The first displacement is zero, so the first pass is one without a fix.\<close>

lemma GPS_trigger_first:
  assumes "altitude \<noteq> []"
  shows "GPS_trigger latitude longitude altitude ! 0 = False"
  using assms by (simp add: GPS_trigger_def ds_def dx_def dy_def)

text \<open>
  The initial yaw rate is the first logged sample in radians, so it is not zero when the
  first pass takes the turning branch: the first time update always returns.
\<close>

lemma time_update_first_pass:
  assumes len: "length x = 5" and x4: "x ! 4 = yr / 180.0 * pi"
  shows "\<exists>x1 JA P1. time_update dt Q yr (x, P) = Inr (x1, JA, P1)"
proof (cases "\<bar>yr\<bar> < 0.0001")
  case True
  then show ?thesis using len by (rule time_update_straight)
next
  case False
  then have "yr \<noteq> 0" by auto
  then have nz: "x ! 4 \<noteq> 0" by (simp add: x4)
  show ?thesis
    using nz by (simp add: time_update_def project_state_turning [OF len False nz]
        jacobian_A_def Let_def)
qed

lemma notebook_run_first_pass:
  assumes "altitude \<noteq> []"
  shows "\<exists>x0 Zcol rest. length x0 = 5 \<and> x0 ! 4 = yawrate ! 0 / 180.0 * pi
     \<and> notebook_run R yawrate speed course latitude longitude altitude =
         filter_loop dt_cfg Q_cfg R ((yawrate ! 0, False, Zcol) # rest) (x0, P_cfg)"
proof -
  have m: "0 < length altitude" using assms by simp
  show ?thesis
    unfolding notebook_run_def Let_def length_mx
    using m GPS_trigger_first [OF assms, of latitude longitude]
    by (auto simp: upt_conv_Cons simp del: upt_Suc intro!: exI)
qed

lemma pd_diagonal:
  assumes "0 < r1" and "0 < r2"
  shows "pd 2 [[r1, 0], [0, r2]]"
proof -
  have q: "0 < quad_form [[r1, 0], [0, r2]] v" if "length v = 2" "v \<noteq> replicate 2 0" for v
  proof -
    from that(1) obtain a b where v: "v = [a, b]"
      by (auto simp: eval_nat_numeral length_Suc_conv)
    from that(2) have "a \<noteq> 0 \<or> b \<noteq> 0" by (auto simp: v eval_nat_numeral)
    then have "0 < r1 * a\<^sup>2 + r2 * b\<^sup>2"
    proof
      assume "a \<noteq> 0"
      then have "0 < r1 * a\<^sup>2" using assms(1) by simp
      moreover have "0 \<le> r2 * b\<^sup>2" using assms(2) by simp
      ultimately show ?thesis by linarith
    next
      assume "b \<noteq> 0"
      then have "0 < r2 * b\<^sup>2" using assms(2) by simp
      moreover have "0 \<le> r1 * a\<^sup>2" using assms(1) by simp
      ultimately show ?thesis by linarith
    qed
    then show ?thesis unfolding v quad_form_two by (simp add: power2_eq_square algebra_simps)
  qed
  show ?thesis
    unfolding pd_def using q
    by (auto simp: is_mat_def symmetric_m_def eval_nat_numeral)
qed

text \<open>
  C9: the measurement noise is a diagonal matrix of the two position variances. The first
  pass of every run is one without a fix, since the first displacement is zero by
  construction, and on a pass without a fix the innovation covariance is the measurement
  noise itself. So with a degenerate measurement noise, one with a zero variance, the
  inversion of a pass without a fix raises \<open>LinAlgError\<close>, and every run ends with that error
  in its first pass: no state and no covariance is produced, and no pass with a fix is
  reached. Conversely, with a positive definite measurement noise no inversion of a run
  raises, and on a pass without a fix the inversion returns with \<open>S = R\<close> exactly.
\<close>

theorem degenerate_R_raises:
  assumes "length yawrate = m" and "length speed = m" and "length course = m"
    and "length latitude = m" and "length longitude = m" and "length altitude = m"
    and "0 < m" and "is_mat 5 5 P"
  shows "\<not> GPS_trigger latitude longitude altitude ! 0
       \<and> (r1 = 0 \<or> r2 = 0 \<longrightarrow>
             measurement_update [[r1, 0], [0, r2]] False Zcol (x, P) = Inl LinAlgError
             \<and> notebook_run [[r1, 0], [0, r2]] yawrate speed course latitude longitude altitude
                 = Inl LinAlgError)
       \<and> (pd 2 [[r1, 0], [0, r2]] \<longrightarrow>
             (\<exists>v. measurement_update [[r1, 0], [0, r2]] False Zcol (x, P) = Inr v
                   \<and> var_S v = [[r1, 0], [0, r2]])
             \<and> notebook_run [[r1, 0], [0, r2]] yawrate speed course latitude longitude altitude
                 \<noteq> Inl LinAlgError)"
proof -
  let ?R = "[[r1, 0], [0, r2]]"
  let ?run = "notebook_run ?R yawrate speed course latitude longitude altitude"
  have ne: "altitude \<noteq> []" using assms(6,7) by auto
  from notebook_run_first_pass [OF ne, of yawrate ?R speed course latitude longitude]
  obtain x0 Z0 rest where x0: "length x0 = 5" "x0 ! 4 = yawrate ! 0 / 180.0 * pi"
    and run: "?run = filter_loop dt_cfg Q_cfg ?R ((yawrate ! 0, False, Z0) # rest) (x0, P_cfg)"
    by blast
  have first: "\<not> GPS_trigger latitude longitude altitude ! 0"
    using GPS_trigger_first [OF ne] by simp
  have degenerate: "measurement_update ?R False Zcol (x, P) = Inl LinAlgError
      \<and> ?run = Inl LinAlgError" if "r1 = 0 \<or> r2 = 0"
  proof -
    from that have det: "det2 ?R = 0" by (auto simp: det2_def)
    have step: "measurement_update ?R False Zcol (x, P) = Inl LinAlgError"
      using assms(8) det by (rule measurement_update_no_fix_singular)
    from time_update_first_pass [OF x0, of dt_cfg Q_cfg P_cfg]
    obtain x1 JA P1 where tu: "time_update dt_cfg Q_cfg (yawrate ! 0) (x0, P_cfg) = Inr (x1, JA, P1)"
      by blast
    have "measurement_update ?R False Z0 (x1, P1) = Inl LinAlgError"
      using time_update_shape(3) [OF tu] det by (rule measurement_update_no_fix_singular)
    then have "?run = Inl LinAlgError"
      by (simp add: run filterstep_def tu)
    with step show ?thesis by simp
  qed
  have definite: "(\<exists>v. measurement_update ?R False Zcol (x, P) = Inr v \<and> var_S v = ?R)
      \<and> ?run \<noteq> Inl LinAlgError" if R: "pd 2 ?R"
  proof -
    from R have det: "det2 ?R \<noteq> 0" using pd_det_pos by fastforce
    have shape: "mat 2 2 (\<lambda>i j. ?R ! i ! j) = ?R"
      by (rule mat_of_entries) (simp add: is_mat_def)
    from measurement_update_no_fix_covariance [OF assms(8) det, of Zcol x]
    have step: "\<exists>v. measurement_update ?R False Zcol (x, P) = Inr v \<and> var_S v = ?R"
      unfolding shape by blast
    from filter_loop_psd [OF psd_P_cfg psd_Q_cfg R, where dt=dt_cfg
        and steps="(yawrate ! 0, False, Z0) # rest" and x=x0]
    have "?run \<noteq> Inl LinAlgError"
      unfolding run by (auto split: sum.splits)
    with step show ?thesis by simp
  qed
  from first degenerate definite show ?thesis by blast
qed

theorem degenerate_R_raises_witness:
  "\<not> GPS_trigger [51, 51] [13, 13.0001] [100, 100] ! 0
   \<and> measurement_update [[36, 0], [0, 0]] False [0, 0] ([0, 0, 0, 10, 0], P_cfg) = Inl LinAlgError
   \<and> notebook_run [[36, 0], [0, 0]] [0, 0] [36, 36] [90, 90] [51, 51] [13, 13.0001] [100, 100]
       = Inl LinAlgError
   \<and> (\<exists>v. measurement_update [[36, 0], [0, 36]] False [0, 0] ([0, 0, 0, 10, 0], P_cfg) = Inr v
           \<and> var_S v = [[36, 0], [0, 36]])
   \<and> notebook_run [[36, 0], [0, 36]] [0, 0] [36, 36] [90, 90] [51, 51] [13, 13.0001] [100, 100]
       \<noteq> Inl LinAlgError"
  using
    degenerate_R_raises [where m=2 and yawrate="[0, 0]" and speed="[36, 36]" and course="[90, 90]"
      and latitude="[51, 51]" and longitude="[13, 13.0001]" and altitude="[100, 100]"
      and P=P_cfg and ?r1.0=36 and ?r2.0=0 and Zcol="[0, 0]" and x="[0, 0, 0, 10, 0]"]
    degenerate_R_raises [where m=2 and yawrate="[0, 0]" and speed="[36, 36]" and course="[90, 90]"
      and latitude="[51, 51]" and longitude="[13, 13.0001]" and altitude="[100, 100]"
      and P=P_cfg and ?r1.0=36 and ?r2.0=36 and Zcol="[0, 0]" and x="[0, 0, 0, 10, 0]"]
    is_mat_P_cfg pd_diagonal [of 36 36]
  by simp

end
